theory Spec2Isabelle
  imports Complex_Main "HOL-Library.Word"
begin

section \<open>Conventions of the embedding\<close>

text \<open>
  The TypeScript sources are embedded function by function.  A JavaScript \<open>Map\<close> keeps
  its keys distinct and iterates in insertion order, so it is an association list with
  the three operations below.  A call of \<open>Date.now()\<close> is an explicit argument (an
  \<open>int\<close> of milliseconds).  An optional field is an \<open>option\<close>; a test of truthiness
  is written out (\<open>undefined\<close>, the empty string and the number 0 are falsy).  JavaScript
  numbers that hold counts and times are \<open>int\<close> or \<open>nat\<close>; numbers that hold scores
  and similarities are \<open>real\<close>, so rounding and \<open>NaN\<close> are outside the model.  The
  option \<open>maxRetries\<close>, which decides whether the executor goes on, is any JavaScript
  number.  A lookup \<open>object[key]\<close> by a string the caller chooses also finds the
  properties an object literal inherits from \<open>Object.prototype\<close>.  Where two interfaces
  of the source share a field name, the later record carries a short prefix.
\<close>

fun mapGet :: "'k \<Rightarrow> ('k \<times> 'v) list \<Rightarrow> 'v option" where
  "mapGet k [] = None"
| "mapGet k ((k', v) # m) = (if k = k' then Some v else mapGet k m)"

fun mapSet :: "'k \<Rightarrow> 'v \<Rightarrow> ('k \<times> 'v) list \<Rightarrow> ('k \<times> 'v) list" where
  "mapSet k v [] = [(k, v)]"
| "mapSet k v ((k', v') # m) = (if k = k' then (k, v) # m else (k', v') # mapSet k v m)"

fun mapDelete :: "'k \<Rightarrow> ('k \<times> 'v) list \<Rightarrow> ('k \<times> 'v) list" where
  "mapDelete k [] = []"
| "mapDelete k ((k', v) # m) = (if k = k' then mapDelete k m else (k', v) # mapDelete k m)"

definition truthy :: "string option \<Rightarrow> bool" where
  "truthy s = (case s of None \<Rightarrow> False | Some t \<Rightarrow> t \<noteq> [])"

section \<open>AICache (src/services/cache/aiCache.ts)\<close>

record 'a CacheItem =
  data :: 'a
  timestamp :: int
  expiresAt :: int
  hash :: string

text \<open>
  The state of an \<open>AICache\<close>: the map and the two options the map operations read.
  Persistence (\<open>saveToStorage\<close>) writes \<open>localStorage\<close> only, catches its own errors and
  never touches the map, so it is left out.
\<close>

record 'a AICache =
  cache :: "(string \<times> 'a CacheItem) list"
  options_ttl :: int
  options_maxSize :: int

text \<open>\<open>AICache.get\<close>, lines 70-84: the result and the cache after the call.\<close>

definition AICache_get :: "int \<Rightarrow> string \<Rightarrow> 'a AICache \<Rightarrow> 'a option \<times> 'a AICache" where
  "AICache_get now key c =
     (case mapGet key (cache c) of
        None \<Rightarrow> (None, c)
      | Some item \<Rightarrow>
          if now > expiresAt item
          then (None, c\<lparr>cache := mapDelete key (cache c)\<rparr>)
          else (Some (data item), c))"

text \<open>
  \<open>removeOldestItem\<close>, lines 225-239.  The scan starts from \<open>oldestKey = null\<close> and
  \<open>oldestTimestamp = Date.now()\<close>; \<open>if (oldestKey)\<close> is false for \<open>null\<close> and for
  the empty string.
\<close>

fun oldestScan :: "(string \<times> 'a CacheItem) list \<Rightarrow> string option \<Rightarrow> int \<Rightarrow> string option" where
  "oldestScan [] oldestKey oldestTimestamp = oldestKey"
| "oldestScan ((key, item) # rest) oldestKey oldestTimestamp =
     (if timestamp item < oldestTimestamp
      then oldestScan rest (Some key) (timestamp item)
      else oldestScan rest oldestKey oldestTimestamp)"

definition removeOldestItem :: "int \<Rightarrow> 'a AICache \<Rightarrow> 'a AICache" where
  "removeOldestItem now c =
     (case oldestScan (cache c) None now of
        None \<Rightarrow> c
      | Some oldestKey \<Rightarrow>
          if oldestKey \<noteq> [] then c\<lparr>cache := mapDelete oldestKey (cache c)\<rparr> else c)"

text \<open>
  \<open>AICache.set\<close>, lines 89-114.  \<open>now\<close> is the clock read of line 90, \<open>now'\<close> the one
  \<open>removeOldestItem\<close> makes at line 227 when it is called.  \<open>customTtl || this.options.ttl\<close>
  takes the default for an absent and for a zero \<open>customTtl\<close>.
\<close>

definition AICache_set :: "int \<Rightarrow> int \<Rightarrow> string \<Rightarrow> 'a \<Rightarrow> int option \<Rightarrow> 'a AICache \<Rightarrow> 'a AICache" where
  "AICache_set now now' key d customTtl c =
     (let ttl = (case customTtl of
                   None \<Rightarrow> options_ttl c
                 | Some t \<Rightarrow> if t \<noteq> 0 then t else options_ttl c);
          c1 = (if int (length (cache c)) \<ge> options_maxSize c
                then removeOldestItem now' c else c);
          cacheItem = \<lparr>data = d, timestamp = now, expiresAt = now + ttl, hash = key\<rparr>
      in c1\<lparr>cache := mapSet key cacheItem (cache c1)\<rparr>)"

section \<open>BasicSemanticCacheProvider (packages/adapters/src/cache/semanticCacheProvider.ts)\<close>

text \<open>
  A thrown value: an \<open>Error\<close> object with its message, or a value that is not an
  \<open>Error\<close> (the source tests \<open>error instanceof Error\<close>).
\<close>

datatype error = Error string | NonError

record 'r SemanticEntry =
  embedding :: "real list"
  entry_response :: 'r
  entry_expiresAt :: int
  query :: string
  entry_systemPrompt :: "string option"
  entry_model :: "string option"

record 'r SemanticCacheResult =
  result_response :: 'r
  result_similarity :: real
  cacheKey :: string

record FindOptions =
  opt_model :: "string option"
  opt_systemPrompt :: "string option"
  opt_minSimilarity :: real

text \<open>
  \<open>simpleHash\<close>, lines 110-117.  \<open>hash << 5\<close> and \<open>hash & hash\<close> are 32-bit integer
  operations, so the loop is arithmetic modulo \<open>2^32\<close> read back as a signed integer.
  The seeds the source passes are \<open>0 .. 127\<close>.  Strings are ASCII: a character is its
  code unit.
\<close>

definition simpleHash :: "string \<Rightarrow> nat \<Rightarrow> int" where
  "simpleHash str seed =
     sint (foldl (\<lambda>hash c. push_bit 5 hash - hash + of_nat (of_char c)) (of_nat seed :: 32 word) str)"

text \<open>\<open>text.toLowerCase()\<close> and \<open>split(/\s+/)\<close> on ASCII strings.\<close>

definition toLowerCase :: "string \<Rightarrow> string" where
  "toLowerCase s =
     map (\<lambda>c. if 65 \<le> (of_char c :: nat) \<and> (of_char c :: nat) \<le> 90
              then char_of ((of_char c :: nat) + 32) else c) s"

definition isSpace :: "char \<Rightarrow> bool" where
  "isSpace c = ((of_char c :: nat) \<in> {9, 10, 11, 12, 13, 32})"

function splitSpaces :: "string \<Rightarrow> string \<Rightarrow> string list" where
  "splitSpaces [] word = [word]"
| "splitSpaces (c # cs) word =
     (if isSpace c then word # splitSpaces (dropWhile isSpace cs) []
      else splitSpaces cs (word @ [c]))"
  by pat_completeness auto
termination
  by (relation "measure (\<lambda>(s, w). length s)") (auto simp: length_dropWhile_le less_Suc_eq_le)

text \<open>\<open>Array.from(new Set(words))\<close>: the first occurrence of every word, in order.\<close>

definition uniqueWords :: "string list \<Rightarrow> string list" where
  "uniqueWords ws = foldl (\<lambda>acc w. if w \<in> set acc then acc else acc @ [w]) [] ws"

text \<open>
  \<open>getEmbedding\<close>, lines 79-105, over the reals.  A zero magnitude gives \<open>NaN\<close>
  components in the source and 0 here.
\<close>

definition getEmbedding :: "string \<Rightarrow> real list" where
  "getEmbedding text =
     (let ws = uniqueWords (splitSpaces (toLowerCase text) []);
          emb = map (\<lambda>i. real_of_int (sum_list (map (\<lambda>w. simpleHash w i) ws)) / 100) [0 ..< 128];
          magnitude = sqrt (sum_list (map (\<lambda>val. val * val) emb))
      in map (\<lambda>val. val / magnitude) emb)"

text \<open>\<open>cosineSimilarity\<close>, lines 122-145.\<close>

definition cosineSimilarity :: "real list \<Rightarrow> real list \<Rightarrow> error + real" where
  "cosineSimilarity vecA vecB =
     (if length vecA \<noteq> length vecB
      then Inl (Error ''Vectors must have the same dimensions'')
      else
        let dotProduct = sum_list (map (\<lambda>(a, b). a * b) (zip vecA vecB));
            magA = sqrt (sum_list (map (\<lambda>a. a * a) vecA));
            magB = sqrt (sum_list (map (\<lambda>b. b * b) vecB))
        in if magA = 0 \<or> magB = 0 then Inr 0 else Inr (dotProduct / (magA * magB)))"

text \<open>
  The loop of \<open>findSimilar\<close>, lines 166-192, over the entries in insertion order.  The
  first component of the result is the map after the loop (an expired entry the loop
  visits is deleted); the second is \<open>bestMatch\<close>, or the error \<open>cosineSimilarity\<close>
  throws, which ends the loop where it stands.
\<close>

fun scanEntries ::
  "real list \<Rightarrow> FindOptions \<Rightarrow> int \<Rightarrow> (string \<times> 'r SemanticEntry) list \<Rightarrow> real \<Rightarrow>
   'r SemanticCacheResult option \<Rightarrow>
   (string \<times> 'r SemanticEntry) list \<times> (error + 'r SemanticCacheResult option)" where
  "scanEntries queryEmbedding options now [] highestSimilarity bestMatch = ([], Inr bestMatch)"
| "scanEntries queryEmbedding options now ((key, entry) # rest) highestSimilarity bestMatch =
     (if entry_expiresAt entry < now
      then scanEntries queryEmbedding options now rest highestSimilarity bestMatch
      else if truthy (opt_model options) \<and> truthy (entry_model entry) \<and>
              entry_model entry \<noteq> opt_model options
      then (case scanEntries queryEmbedding options now rest highestSimilarity bestMatch of
              (m, r) \<Rightarrow> ((key, entry) # m, r))
      else (case cosineSimilarity queryEmbedding (embedding entry) of
              Inl e \<Rightarrow> ((key, entry) # rest, Inl e)
            | Inr similarity \<Rightarrow>
                if similarity > highestSimilarity \<and> similarity \<ge> opt_minSimilarity options
                then (case scanEntries queryEmbedding options now rest similarity
                             (Some \<lparr>result_response = entry_response entry,
                                    result_similarity = similarity, cacheKey = key\<rparr>) of
                        (m, r) \<Rightarrow> ((key, entry) # m, r))
                else (case scanEntries queryEmbedding options now rest highestSimilarity bestMatch of
                        (m, r) \<Rightarrow> ((key, entry) # m, r))))"

text \<open>\<open>findSimilar\<close>, lines 150-195; \<open>now\<close> is the clock read of line 163.\<close>

definition findSimilar ::
  "string \<Rightarrow> FindOptions \<Rightarrow> int \<Rightarrow> (string \<times> 'r SemanticEntry) list \<Rightarrow>
   (string \<times> 'r SemanticEntry) list \<times> (error + 'r SemanticCacheResult option)" where
  "findSimilar q options now m = scanEntries (getEmbedding q) options now m (- 1) None"

text \<open>
  The entries the loop of \<open>findSimilar\<close> compares with the query: those it neither
  deletes as expired (line 167) nor skips for their model (line 173).
\<close>

definition candidate :: "int \<Rightarrow> FindOptions \<Rightarrow> 'r SemanticEntry \<Rightarrow> bool" where
  "candidate now options entry =
     (\<not> entry_expiresAt entry < now \<and>
      \<not> (truthy (opt_model options) \<and> truthy (entry_model entry) \<and>
         entry_model entry \<noteq> opt_model options))"

text \<open>Decimal rendering of an integer, as a template literal renders a number.\<close>

fun showNat :: "nat \<Rightarrow> string" where
  "showNat n =
     (if n < 10 then [''0123456789'' ! n]
      else showNat (n div 10) @ [''0123456789'' ! (n mod 10)])"

definition showInt :: "int \<Rightarrow> string" where
  "showInt i = (if i < 0 then CHR ''-'' # showNat (nat (- i)) else showNat (nat i))"

text \<open>\<open>store\<close>, lines 200-222: the key and the map after the call.\<close>

definition store ::
  "string \<Rightarrow> 'r \<Rightarrow> string option \<Rightarrow> string option \<Rightarrow> int \<Rightarrow> int \<Rightarrow>
   (string \<times> 'r SemanticEntry) list \<Rightarrow> string \<times> (string \<times> 'r SemanticEntry) list" where
  "store q response model systemPrompt ttl now m =
     (let emb = getEmbedding q;
          key = ''semantic:'' @ showInt now @ '':'' @ showInt (simpleHash q 0)
      in (key, mapSet key \<lparr>embedding = emb, entry_response = response,
                           entry_expiresAt = now + ttl, query = q,
                           entry_systemPrompt = systemPrompt, entry_model = model\<rparr> m))"


section \<open>Shared types (src/types/index.d.ts)\<close>

datatype AIProviderType = claude | openai | CLAUDE | OPENAI

datatype CacheStrategy = exact | semantic | hybrid

datatype RoutingPriority = speed | quality | cost

datatype ComplexityLevel = low | medium | high

record MCPRequestParams =
  cacheStrategy :: CacheStrategy
  minSimilarity :: "real option"
  cacheTTL :: "int option"
  priority :: "RoutingPriority option"
  storeResult :: "bool option"
  multiProviderEnabled :: "bool option"
  preferredProvider :: "AIProviderType option"

section \<open>SmartRouter (src/services/mcp/smartRouter.ts, lines 1-558)\<close>

record ModelMetadata =
  provider :: AIProviderType
  contextSize :: int
  strengths :: "string list"
  weaknesses :: "string list"
  costPerInputToken :: real
  costPerOutputToken :: real
  averageResponseTimeMs :: real
  suitableFor :: "string list"
  capabilities :: "(string \<times> real) list"

text \<open>
  \<open>modelsMetadata\<close>, lines 22-222: an object whose keys are the model names, in the
  order of the source (no key is an integer, so \<open>Object.entries\<close> keeps that order).
\<close>

definition modelsMetadata :: "(string \<times> ModelMetadata) list" where
  "modelsMetadata =
    [
     (''claude-3-7-sonnet-20250219'',
      \<lparr>provider = CLAUDE, contextSize = 200000,
       strengths = [''reasoning'', ''instruction following'', ''creative writing'', ''balanced performance''],
       weaknesses = [''code generation complexity'', ''math'', ''context handling edge cases''],
       costPerInputToken = 0.00000388, costPerOutputToken = 0.00001554,
       averageResponseTimeMs = 2000,
       suitableFor = [''complex reasoning'', ''creative tasks'', ''instruction following'', ''general purpose''],
       capabilities = [(''reasoning'', 9), (''creativity'', 8), (''codeGeneration'', 7), (''mathPrecision'', 6), (''factualAccuracy'', 8), (''contextUnderstanding'', 9)]\<rparr>),
     (''claude-3-opus-20240229'',
      \<lparr>provider = CLAUDE, contextSize = 180000,
       strengths = [''reasoning'', ''creative writing'', ''detailed analysis''],
       weaknesses = [''slower response times'', ''higher cost''],
       costPerInputToken = 0.000015, costPerOutputToken = 0.000044,
       averageResponseTimeMs = 3500,
       suitableFor = [''complex reasoning'', ''detailed analysis'', ''safety critical''],
       capabilities = [(''reasoning'', 9.5), (''creativity'', 8.5), (''codeGeneration'', 8), (''mathPrecision'', 7), (''factualAccuracy'', 9), (''contextUnderstanding'', 9.5)]\<rparr>),
     (''claude-3-5-sonnet-20240229'',
      \<lparr>provider = CLAUDE, contextSize = 180000,
       strengths = [''balanced performance'', ''instruction following''],
       weaknesses = [''creative writing depth''],
       costPerInputToken = 0.000003, costPerOutputToken = 0.000009,
       averageResponseTimeMs = 2200,
       suitableFor = [''general purpose'', ''balanced requirements''],
       capabilities = [(''reasoning'', 7.5), (''creativity'', 7), (''codeGeneration'', 7), (''mathPrecision'', 6), (''factualAccuracy'', 8), (''contextUnderstanding'', 8)]\<rparr>),
     (''claude-3-haiku-20240229'',
      \<lparr>provider = CLAUDE, contextSize = 180000,
       strengths = [''speed'', ''low cost''],
       weaknesses = [''complex reasoning'', ''detailed analysis''],
       costPerInputToken = 0.00000025, costPerOutputToken = 0.00000125,
       averageResponseTimeMs = 1000,
       suitableFor = [''simple tasks'', ''quick responses'', ''high throughput''],
       capabilities = [(''reasoning'', 5), (''creativity'', 5), (''codeGeneration'', 5), (''mathPrecision'', 4), (''factualAccuracy'', 6), (''contextUnderstanding'', 5)]\<rparr>),
     (''gpt-4o'',
      \<lparr>provider = OPENAI, contextSize = 128000,
       strengths = [''speed'', ''cost effective'', ''code generation''],
       weaknesses = [''detailed analysis'', ''longer contexts''],
       costPerInputToken = 0.000005, costPerOutputToken = 0.000015,
       averageResponseTimeMs = 1800,
       suitableFor = [''code tasks'', ''general purpose'', ''balanced requirements''],
       capabilities = [(''reasoning'', 8.5), (''creativity'', 8), (''codeGeneration'', 9), (''mathPrecision'', 8), (''factualAccuracy'', 8), (''contextUnderstanding'', 8.5)]\<rparr>),
     (''gpt-4o-mini'',
      \<lparr>provider = OPENAI, contextSize = 128000,
       strengths = [''speed'', ''very low cost''],
       weaknesses = [''complex reasoning'', ''detailed analysis''],
       costPerInputToken = 0.0000015, costPerOutputToken = 0.000006,
       averageResponseTimeMs = 1000,
       suitableFor = [''simple tasks'', ''high throughput'', ''cost sensitive''],
       capabilities = [(''reasoning'', 6), (''creativity'', 6), (''codeGeneration'', 7), (''mathPrecision'', 5), (''factualAccuracy'', 7), (''contextUnderstanding'', 6)]\<rparr>),
     (''gpt-4'',
      \<lparr>provider = OPENAI, contextSize = 8192,
       strengths = [''mature'', ''reliable'', ''code generation''],
       weaknesses = [''context size'', ''response speed'', ''higher cost''],
       costPerInputToken = 0.00003, costPerOutputToken = 0.00006,
       averageResponseTimeMs = 3000,
       suitableFor = [''complex tasks'', ''code generation''],
       capabilities = [(''reasoning'', 8), (''creativity'', 7.5), (''codeGeneration'', 9), (''mathPrecision'', 7.5), (''factualAccuracy'', 8), (''contextUnderstanding'', 8)]\<rparr>),
     (''gpt-4.1'',
      \<lparr>provider = OPENAI, contextSize = 16000,
       strengths = [''reliability'', ''code generation'', ''math''],
       weaknesses = [''context size'', ''cost''],
       costPerInputToken = 0.000075, costPerOutputToken = 0.00012,
       averageResponseTimeMs = 4000,
       suitableFor = [''complex tasks'', ''code generation'', ''math''],
       capabilities = [(''reasoning'', 8.5), (''creativity'', 8), (''codeGeneration'', 9.5), (''mathPrecision'', 9), (''factualAccuracy'', 8.5), (''contextUnderstanding'', 8.5)]\<rparr>),
     (''gpt-4-turbo-preview'',
      \<lparr>provider = OPENAI, contextSize = 128000,
       strengths = [''larger context'', ''code generation''],
       weaknesses = [''higher cost'', ''potentially less reliable''],
       costPerInputToken = 0.00001, costPerOutputToken = 0.00003,
       averageResponseTimeMs = 2500,
       suitableFor = [''long context tasks'', ''code generation''],
       capabilities = [(''reasoning'', 8.5), (''creativity'', 8), (''codeGeneration'', 9), (''mathPrecision'', 8), (''factualAccuracy'', 8.5), (''contextUnderstanding'', 9)]\<rparr>),
     (''gpt-3.5-turbo'',
      \<lparr>provider = OPENAI, contextSize = 16000,
       strengths = [''speed'', ''low cost'', ''reliability''],
       weaknesses = [''complex reasoning'', ''detailed analysis''],
       costPerInputToken = 0.0000005, costPerOutputToken = 0.0000015,
       averageResponseTimeMs = 800,
       suitableFor = [''simple tasks'', ''high throughput'', ''cost sensitive''],
       capabilities = [(''reasoning'', 5), (''creativity'', 5), (''codeGeneration'', 6), (''mathPrecision'', 4), (''factualAccuracy'', 6), (''contextUnderstanding'', 5)]\<rparr>)
    ]"

record PriorityWeights =
  w_speed :: real
  w_quality :: real
  w_cost :: real

text \<open>\<open>priorityFactors\<close>, lines 263-267.\<close>

definition priorityFactors :: PriorityWeights where
  "priorityFactors = \<lparr>w_speed = 0.33, w_quality = 0.34, w_cost = 0.33\<rparr>"

text \<open>\<open>getRelevantCapabilities\<close>, lines 451-503.\<close>

definition defaultWeights :: "(string \<times> real) list" where
  "defaultWeights =
     [(''reasoning'', 0.2), (''creativity'', 0.2), (''codeGeneration'', 0.15),
      (''mathPrecision'', 0.15), (''factualAccuracy'', 0.15), (''contextUnderstanding'', 0.15)]"

definition taskWeights :: "(string \<times> (string \<times> real) list) list" where
  "taskWeights =
     [(''general'', defaultWeights),
      (''code'', [(''codeGeneration'', 0.5), (''reasoning'', 0.2),
                  (''contextUnderstanding'', 0.2), (''factualAccuracy'', 0.1)]),
      (''creative'', [(''creativity'', 0.5), (''contextUnderstanding'', 0.2),
                      (''reasoning'', 0.2), (''factualAccuracy'', 0.1)]),
      (''analysis'', [(''reasoning'', 0.4), (''factualAccuracy'', 0.3),
                      (''contextUnderstanding'', 0.2), (''mathPrecision'', 0.1)]),
      (''math'', [(''mathPrecision'', 0.5), (''reasoning'', 0.3), (''factualAccuracy'', 0.2)]),
      (''factual'', [(''factualAccuracy'', 0.6), (''contextUnderstanding'', 0.2),
                     (''reasoning'', 0.2)]),
      (''cad'', [(''reasoning'', 0.3), (''factualAccuracy'', 0.3), (''codeGeneration'', 0.2),
                 (''contextUnderstanding'', 0.2)])]"

text \<open>
  The property names an object literal inherits from \<open>Object.prototype\<close>.  Every
  inherited value is truthy (a function, or the prototype itself for \<open>__proto__\<close>), has
  no own enumerable property, and turns into the string \<open>inheritedAsKey\<close> when it is
  used as a property name.
\<close>

definition objectPrototypeKeys :: "string list" where
  "objectPrototypeKeys =
     [''constructor'', ''__defineGetter__'', ''__defineSetter__'', ''hasOwnProperty'',
      ''__lookupGetter__'', ''__lookupSetter__'', ''isPrototypeOf'', ''propertyIsEnumerable'',
      ''toString'', ''valueOf'', ''__proto__'', ''toLocaleString'']"

definition inheritedAsKey :: "string \<Rightarrow> string" where
  "inheritedAsKey k =
     (if k = ''__proto__'' then ''[object Object]''
      else ''function '' @ (if k = ''constructor'' then ''Object'' else k) @
           ''() { [native code] }'')"

text \<open>
  \<open>taskWeights[taskType] || defaultWeights\<close>, line 502: the weights of the task type,
  or the inherited value (whose \<open>Object.entries\<close> is empty), or the default weights.
\<close>

definition getRelevantCapabilities :: "string \<Rightarrow> (string \<times> real) list" where
  "getRelevantCapabilities taskType =
     (case mapGet taskType taskWeights of
        Some w \<Rightarrow> w
      | None \<Rightarrow> if taskType \<in> set objectPrototypeKeys then [] else defaultWeights)"

text \<open>
  \<open>mapCapabilityToMetadataField\<close>, lines 508-520: \<open>mapping[capability] || capability\<close>.
  The result is used as a property name at line 354.
\<close>

definition mapCapabilityToMetadataField :: "string \<Rightarrow> string" where
  "mapCapabilityToMetadataField capability =
     (case mapGet capability
             [(''reasoning'', ''reasoning''), (''creative'', ''creativity''),
              (''code'', ''codeGeneration''), (''math'', ''mathPrecision''),
              (''factual'', ''factualAccuracy''), (''context'', ''contextUnderstanding'')] of
        Some f \<Rightarrow> f
      | None \<Rightarrow>
          if capability \<in> set objectPrototypeKeys then inheritedAsKey capability
          else capability)"

text \<open>
  \<open>calculateQualityScore\<close>, lines 420-446.  The loop adds a capability only when the
  model's score for it is truthy (present and not 0).
\<close>

fun weightedLoop :: "(string \<times> real) list \<Rightarrow> (string \<times> real) list \<Rightarrow> real \<Rightarrow> real \<Rightarrow> real \<times> real" where
  "weightedLoop caps [] weightedScore totalWeight = (weightedScore, totalWeight)"
| "weightedLoop caps ((capability, weight) # rest) weightedScore totalWeight =
     (case mapGet capability caps of
        None \<Rightarrow> weightedLoop caps rest weightedScore totalWeight
      | Some v \<Rightarrow>
          if v \<noteq> 0
          then weightedLoop caps rest (weightedScore + v * weight) (totalWeight + weight)
          else weightedLoop caps rest weightedScore totalWeight)"

definition complexityMultiplier :: "ComplexityLevel \<Rightarrow> real" where
  "complexityMultiplier l = (case l of low \<Rightarrow> 0.7 | medium \<Rightarrow> 1.0 | high \<Rightarrow> 1.3)"

definition calculateQualityScore :: "ModelMetadata \<Rightarrow> string \<Rightarrow> ComplexityLevel \<Rightarrow> real" where
  "calculateQualityScore metadata taskType complexityLevel =
     (case weightedLoop (capabilities metadata) (getRelevantCapabilities taskType) 0 0 of
        (weightedScore, totalWeight) \<Rightarrow>
          if totalWeight > 0
          then (weightedScore / totalWeight) * complexityMultiplier complexityLevel
          else 5)"

text \<open>The argument of \<open>selectModel\<close>, lines 293-301: every field is optional.\<close>

record SelectOptions =
  so_taskType :: "string option"
  so_promptTokenEstimate :: "real option"
  so_outputTokenEstimate :: "real option"
  so_priority :: "RoutingPriority option"
  so_requiredCapabilities :: "string list option"
  so_preferredProvider :: "AIProviderType option"
  so_complexityLevel :: "ComplexityLevel option"

record ModelScore =
  totalScore :: real
  qualityScore :: real
  speedScore :: real
  costScore :: real
  meetsRequirements :: bool

definition orDefault :: "'a option \<Rightarrow> 'a \<Rightarrow> 'a" where
  "orDefault v d = (case v of None \<Rightarrow> d | Some x \<Rightarrow> x)"

text \<open>
  Lines 312-321: the weights start as a copy of \<open>priorityFactors\<close>, and each of the
  three priorities replaces them.
\<close>

definition priorityWeightsFor :: "RoutingPriority \<Rightarrow> PriorityWeights" where
  "priorityWeightsFor p =
     (case p of
        speed \<Rightarrow> \<lparr>w_speed = 0.6, w_quality = 0.3, w_cost = 0.1\<rparr>
      | quality \<Rightarrow> \<lparr>w_speed = 0.1, w_quality = 0.8, w_cost = 0.1\<rparr>
      | cost \<Rightarrow> \<lparr>w_speed = 0.2, w_quality = 0.2, w_cost = 0.6\<rparr>)"

text \<open>Lines 324-330: the capability level a complexity requires.\<close>

definition requiredLevelFor :: "ComplexityLevel \<Rightarrow> real" where
  "requiredLevelFor l = (case l of low \<Rightarrow> 3 | medium \<Rightarrow> 6 | high \<Rightarrow> 8)"

text \<open>
  Lines 352-355: the capability gate.  A capability the model does not list is
  \<open>undefined\<close>, and \<open>undefined >= requiredLevel\<close> is false.
\<close>

definition capabilitiesMet :: "ModelMetadata \<Rightarrow> SelectOptions \<Rightarrow> bool" where
  "capabilitiesMet metadata options =
     list_all
       (\<lambda>cap. case mapGet (mapCapabilityToMetadataField cap) (capabilities metadata) of
                 None \<Rightarrow> False
               | Some v \<Rightarrow>
                   v \<ge> requiredLevelFor (orDefault (so_complexityLevel options) medium))
       (orDefault (so_requiredCapabilities options) [])"

text \<open>Lines 357-400: the score entry of one model that passed the provider test.\<close>

definition scoreModel :: "ModelMetadata \<Rightarrow> SelectOptions \<Rightarrow> ModelScore" where
  "scoreModel metadata options =
     (if \<not> capabilitiesMet metadata options
      then \<lparr>totalScore = 0, qualityScore = 0, speedScore = 0, costScore = 0,
            meetsRequirements = False\<rparr>
      else
        let priorityWeights = priorityWeightsFor (orDefault (so_priority options) quality);
            qualityScore = calculateQualityScore metadata
                             (orDefault (so_taskType options) ''general'')
                             (orDefault (so_complexityLevel options) medium);
            speedScore = 10 - averageResponseTimeMs metadata / 500;
            totalCostEstimate =
              orDefault (so_promptTokenEstimate options) 500 * costPerInputToken metadata +
              orDefault (so_outputTokenEstimate options) 800 * costPerOutputToken metadata;
            maxCost = 0.1;
            costScore = 10 - (min totalCostEstimate maxCost / maxCost) * 10;
            totalScore = qualityScore * w_quality priorityWeights +
                         speedScore * w_speed priorityWeights +
                         costScore * w_cost priorityWeights
        in \<lparr>totalScore = totalScore, qualityScore = qualityScore, speedScore = speedScore,
            costScore = costScore, meetsRequirements = True\<rparr>)"

text \<open>
  Lines 343-401: the first loop.  A model of another provider than a given
  \<open>preferredProvider\<close> gets no entry in \<open>modelScores\<close>.
\<close>

fun modelScores :: "(string \<times> ModelMetadata) list \<Rightarrow> SelectOptions \<Rightarrow> (string \<times> ModelScore) list" where
  "modelScores [] options = []"
| "modelScores ((model, metadata) # rest) options =
     (case so_preferredProvider options of
        Some p \<Rightarrow>
          if provider metadata \<noteq> p then modelScores rest options
          else (model, scoreModel metadata options) # modelScores rest options
      | None \<Rightarrow> (model, scoreModel metadata options) # modelScores rest options)"

text \<open>Lines 404-412: the second loop.\<close>

fun bestLoop :: "(string \<times> ModelScore) list \<Rightarrow> string \<Rightarrow> real \<Rightarrow> string" where
  "bestLoop [] bestModel highestScore = bestModel"
| "bestLoop ((model, score) # rest) bestModel highestScore =
     (if meetsRequirements score \<and> totalScore score > highestScore
      then bestLoop rest model (totalScore score)
      else bestLoop rest bestModel highestScore)"

text \<open>
  \<open>selectModel\<close>, lines 293-415, over the table \<open>this.modelsMetadata\<close> (the
  constructor may have merged custom ratings into it).
\<close>

definition selectModel :: "(string \<times> ModelMetadata) list \<Rightarrow> SelectOptions \<Rightarrow> string" where
  "selectModel table options =
     bestLoop (modelScores table options) ''claude-3-7-sonnet-20250219'' (- 1)"

text \<open>
  \<open>getProviderForModel\<close>, lines 532-534, and \<open>estimateCost\<close>, lines 539-554.  For
  a name the table inherits, \<open>metadata?.provider\<close> is \<open>undefined\<close> and the cost
  is \<open>NaN\<close>, which is \<open>None\<close> here.
\<close>

definition getProviderForModel :: "(string \<times> ModelMetadata) list \<Rightarrow> string \<Rightarrow> AIProviderType" where
  "getProviderForModel table model =
     (case mapGet model table of None \<Rightarrow> CLAUDE | Some metadata \<Rightarrow> provider metadata)"

definition estimateCost ::
  "(string \<times> ModelMetadata) list \<Rightarrow> string \<Rightarrow> real \<Rightarrow> real \<Rightarrow> real option" where
  "estimateCost table model inputTokens outputTokens =
     (case mapGet model table of
        None \<Rightarrow> if model \<in> set objectPrototypeKeys then None else Some 0
      | Some metadata \<Rightarrow>
          Some (inputTokens * costPerInputToken metadata +
                outputTokens * costPerOutputToken metadata))"

section \<open>MCPConfigManager (src/services/mcp/smartRouter.ts, lines 559-873)\<close>

datatype StrategyName = aggressive | balanced | conservative

record MCPStrategyConfig =
  sc_cacheStrategy :: CacheStrategy
  sc_minSimilarity :: real
  sc_cacheTTL :: int
  sc_priority :: RoutingPriority
  sc_storeResult :: bool

record MCPConfigManager =
  strategyConfigs :: "StrategyName \<Rightarrow> MCPStrategyConfig"
  currentStrategy :: StrategyName
  enabled :: bool
  cm_multiProviderEnabled :: bool
  cm_preferredProvider :: "AIProviderType option"

text \<open>The field initialisers, lines 578-609.\<close>

definition initialStrategyConfigs :: "StrategyName \<Rightarrow> MCPStrategyConfig" where
  "initialStrategyConfigs s =
     (case s of
        aggressive \<Rightarrow>
          \<lparr>sc_cacheStrategy = hybrid, sc_minSimilarity = 0.65, sc_cacheTTL = 86400000,
           sc_priority = speed, sc_storeResult = True\<rparr>
      | balanced \<Rightarrow>
          \<lparr>sc_cacheStrategy = semantic, sc_minSimilarity = 0.8, sc_cacheTTL = 43200000,
           sc_priority = quality, sc_storeResult = True\<rparr>
      | conservative \<Rightarrow>
          \<lparr>sc_cacheStrategy = exact, sc_minSimilarity = 0.95, sc_cacheTTL = 3600000,
           sc_priority = quality, sc_storeResult = True\<rparr>)"

definition initialConfigManager :: MCPConfigManager where
  "initialConfigManager =
     \<lparr>strategyConfigs = initialStrategyConfigs, currentStrategy = balanced, enabled = True,
      cm_multiProviderEnabled = False, cm_preferredProvider = None\<rparr>"

text \<open>
  The object \<open>{...config, multiProviderEnabled, preferredProvider}\<close> that
  \<open>getMCPParams\<close> and \<open>getStrategyParams\<close> build, lines 645-664.
\<close>

definition mergeParams :: "MCPStrategyConfig \<Rightarrow> bool \<Rightarrow> AIProviderType option \<Rightarrow> MCPRequestParams" where
  "mergeParams config multi preferred =
     \<lparr>cacheStrategy = sc_cacheStrategy config,
      minSimilarity = Some (sc_minSimilarity config),
      cacheTTL = Some (sc_cacheTTL config),
      priority = Some (sc_priority config),
      storeResult = Some (sc_storeResult config),
      multiProviderEnabled = Some multi,
      preferredProvider = preferred\<rparr>"

definition getMCPParams :: "MCPConfigManager \<Rightarrow> MCPRequestParams" where
  "getMCPParams m =
     mergeParams (strategyConfigs m (currentStrategy m)) (cm_multiProviderEnabled m)
       (cm_preferredProvider m)"

definition getStrategyParams :: "MCPConfigManager \<Rightarrow> StrategyName \<Rightarrow> MCPRequestParams" where
  "getStrategyParams m strategy =
     mergeParams (strategyConfigs m strategy) (cm_multiProviderEnabled m) (cm_preferredProvider m)"

text \<open>\<open>setStrategy\<close>, lines 682-684, and the two setters of lines 703-719.\<close>

definition setStrategy :: "StrategyName \<Rightarrow> MCPConfigManager \<Rightarrow> MCPConfigManager" where
  "setStrategy strategy m = m\<lparr>currentStrategy := strategy\<rparr>"

definition setMultiProviderEnabled :: "bool \<Rightarrow> MCPConfigManager \<Rightarrow> MCPConfigManager" where
  "setMultiProviderEnabled b m = m\<lparr>cm_multiProviderEnabled := b\<rparr>"

definition setPreferredProvider :: "AIProviderType option \<Rightarrow> MCPConfigManager \<Rightarrow> MCPConfigManager" where
  "setPreferredProvider p m = m\<lparr>cm_preferredProvider := p\<rparr>"

section \<open>MCPService (src/services/mcp/mcpService.ts): requests, responses, options\<close>

record Usage =
  promptTokens :: nat
  completionTokens :: nat
  totalTokens :: nat

text \<open>The two keys \<open>executeRequest\<close> writes into \<open>response.metadata\<close>.\<close>

record ResponseMetadata =
  md_similarity :: real
  md_cacheStrategy :: string

record 'd AIResponse =
  rawResponse :: "string option"
  resp_data :: "'d option"
  resp_error :: "string option"
  success :: bool
  processingTime :: "int option"
  resp_model :: "string option"
  resp_provider :: "AIProviderType option"
  fromCache :: "bool option"
  fromMCP :: "bool option"
  usage :: "Usage option"
  resp_metadata :: "ResponseMetadata option"

text \<open>
  The keys of \<open>request.metadata\<close> that \<open>selectOptimalModel\<close> reads (the source types
  the object as \<open>Record<string, any>\<close>).
\<close>

record RequestMetadata =
  md_type :: "string option"
  complexity :: "string option"
  requiresReasoning :: bool
  requiresCreativity :: bool
  requiresCode :: bool
  requiresMath :: bool
  requiresFactual :: bool
  md_promptTokens :: "real option"
  expectedOutputTokens :: "real option"

text \<open>
  An \<open>AIRequest\<close>.  \<open>parseResponse\<close> returns the parsed data or throws.  The fields
  \<open>openaiOptions\<close>, \<open>maxTokens\<close> and the others that only reach the body of the HTTP
  request are not read by the functions below.
\<close>

record 'd AIRequest =
  prompt :: string
  model :: "string option"
  systemPrompt :: "string option"
  temperature :: "real option"
  parseResponse :: "(string \<Rightarrow> error + 'd) option"
  metadata :: "RequestMetadata option"
  mcpParams :: "MCPRequestParams option"

record Savings =
  sv_tokens :: nat
  sv_cost :: "real option"
  sv_timeMs :: int

record 'd MCPResponse =
  cacheHit :: bool
  similarity :: "real option"
  response :: "'d AIResponse"
  savingsEstimate :: Savings

datatype QueuePriority = High | Normal | Low

text \<open>
  A JavaScript number: the constructor copies \<open>options\<close> unchecked (line 81), so
  \<open>maxRetries\<close> may be fractional, negative, infinite or \<open>NaN\<close>.  \<open>jsLess k m\<close>
  is the test \<open>k < m\<close> for a counter \<open>k\<close>.
\<close>

datatype jsnumber = Finite real | PlusInfinity | MinusInfinity | NaN

definition jsLess :: "nat \<Rightarrow> jsnumber \<Rightarrow> bool" where
  "jsLess k m =
     (case m of
        Finite x \<Rightarrow> real k < x
      | PlusInfinity \<Rightarrow> True
      | MinusInfinity \<Rightarrow> False
      | NaN \<Rightarrow> False)"

record MCPOptions =
  maxRetries :: jsnumber
  retryDelay :: real
  timeoutMs :: nat
  priorityLevels :: "QueuePriority \<Rightarrow> int"
  semanticCacheEnabled :: bool
  smartRoutingEnabled :: bool
  defaultTTL :: int

text \<open>The defaults of the constructor, lines 69-82.\<close>

definition defaultPriorityLevels :: "QueuePriority \<Rightarrow> int" where
  "defaultPriorityLevels p = (case p of High \<Rightarrow> 100 | Normal \<Rightarrow> 50 | Low \<Rightarrow> 10)"

definition defaultOptions :: MCPOptions where
  "defaultOptions =
     \<lparr>maxRetries = Finite 3, retryDelay = 1000, timeoutMs = 30000,
      priorityLevels = defaultPriorityLevels, semanticCacheEnabled = True,
      smartRoutingEnabled = True, defaultTTL = 3600000\<rparr>"

section \<open>MCPService: the queue\<close>

text \<open>
  An entry of \<open>requestQueue\<close>.  Its \<open>resolve\<close> and \<open>reject\<close> belong to the promise
  \<open>enqueue\<close> returned for the request id \<open>promiseOf\<close>.
\<close>

record 'd QueueEntry =
  request :: "'d AIRequest"
  qe_priority :: int
  qe_timestamp :: int
  promiseOf :: string

text \<open>
  The loop of \<open>getNextRequest\<close>, lines 185-203.  \<open>oldestTimestamp\<close> starts at
  \<open>Infinity\<close>, which is \<open>None\<close> here.
\<close>

fun nextLoop ::
  "(string \<times> 'd QueueEntry) list \<Rightarrow> int \<Rightarrow> int option \<Rightarrow> string option \<Rightarrow> string option" where
  "nextLoop [] highestPriority oldestTimestamp selectedRequestId = selectedRequestId"
| "nextLoop ((rid, entry) # rest) highestPriority oldestTimestamp selectedRequestId =
     (if qe_priority entry > highestPriority
      then nextLoop rest (qe_priority entry) (Some (qe_timestamp entry)) (Some rid)
      else if qe_priority entry = highestPriority \<and>
              (case oldestTimestamp of None \<Rightarrow> True | Some t \<Rightarrow> qe_timestamp entry < t)
      then nextLoop rest highestPriority (Some (qe_timestamp entry)) (Some rid)
      else nextLoop rest highestPriority oldestTimestamp selectedRequestId)"

text \<open>
  An entry takes the place of the selected one when it beats the state of the loop:
  its priority is higher, or equal with an older timestamp (the two tests of lines 191
  and 196).
\<close>

definition beats :: "'d QueueEntry \<Rightarrow> int \<Rightarrow> int option \<Rightarrow> bool" where
  "beats e hp ot =
     (qe_priority e > hp \<or>
      (qe_priority e = hp \<and> (case ot of None \<Rightarrow> True | Some t \<Rightarrow> qe_timestamp e < t)))"

text \<open>
  \<open>getNextRequest\<close>, lines 184-212: the entry returned (or \<open>null\<close>) and the queue
  after the call.
\<close>

definition getNextRequest ::
  "(string \<times> 'd QueueEntry) list \<Rightarrow> 'd QueueEntry option \<times> (string \<times> 'd QueueEntry) list" where
  "getNextRequest q =
     (case nextLoop q (- 1) None None of
        None \<Rightarrow> (None, q)
      | Some selectedRequestId \<Rightarrow>
          if selectedRequestId \<noteq> []
          then (mapGet selectedRequestId q, mapDelete selectedRequestId q)
          else (None, q))"

section \<open>MCPService: the exact cache key\<close>

text \<open>
  \<open>generateExactCacheKey\<close>, lines 571-574.  A template literal renders \<open>undefined\<close>
  as the word \<open>undefined\<close> and a number by \<open>Number.prototype.toString\<close>, which is the
  parameter \<open>numberToString\<close>.
\<close>

definition renderString :: "string option \<Rightarrow> string" where
  "renderString v = (case v of None \<Rightarrow> ''undefined'' | Some t \<Rightarrow> t)"

definition generateExactCacheKey :: "(real \<Rightarrow> string) \<Rightarrow> 'd AIRequest \<Rightarrow> string" where
  "generateExactCacheKey numberToString req =
     ''mcp:exact:'' @ renderString (model req) @ '':'' @
     (case temperature req of None \<Rightarrow> ''undefined'' | Some t \<Rightarrow> numberToString t) @ '':'' @
     renderString (systemPrompt req) @ '':'' @ prompt req"

section \<open>MCPService: the provider call\<close>

text \<open>
  What the executor does beyond returning: an analytics event (by its
  \<open>eventName\<close>), a call of \<open>fetch\<close>, and a wait of \<open>setTimeout\<close>.
\<close>

datatype effect = Track string | Fetch AIProviderType | Delay real

text \<open>
  The body of a successful HTTP response, as far as \<open>callProviderAPI\<close> reads it:
  \<open>data.content\<close> (blocks of a type and a text), \<open>data.choices?.[0]?.message?.content\<close>
  and the five counters of \<open>data.usage\<close>.
\<close>

record ApiData =
  content :: "(string \<times> string) list option"
  choiceContent :: "string option"
  input_tokens :: "nat option"
  output_tokens :: "nat option"
  prompt_tokens :: "nat option"
  completion_tokens :: "nat option"
  total_tokens :: "nat option"

text \<open>
  What one call of \<open>fetch\<close> does: its promise rejects; or it answers with
  \<open>response.ok\<close> false (with the HTTP status, and either \<open>errorData.message\<close> or the
  error \<open>response.json()\<close> throws); or it answers with \<open>response.ok\<close> true (with the
  body, or the error \<open>response.json()\<close> throws).
\<close>

datatype FetchResult =
    FetchRejects error
  | HttpFailure nat "error + string option"
  | HttpOk "error + ApiData"

text \<open>Lines 519-522: the error thrown for a response that is not ok.\<close>

definition thrownBy :: "error + string option \<Rightarrow> error" where
  "thrownBy body =
     (case body of
        Inl e \<Rightarrow> e
      | Inr message \<Rightarrow> Error (if truthy message then the message else ''API request failed''))"

definition isClaude :: "AIProviderType \<Rightarrow> bool" where
  "isClaude p = (p = CLAUDE \<or> p = claude)"

definition orZero :: "nat option \<Rightarrow> nat" where
  "orZero v = (case v of None \<Rightarrow> 0 | Some n \<Rightarrow> n)"

text \<open>
  \<open>callProviderAPI\<close>, lines 450-566.  Every value of \<open>AIProviderType\<close> is one of the
  two branches of lines 477-508, so \<open>Unsupported provider\<close> is never thrown.  The body of
  the HTTP request is not part of the model: the answer of the endpoint is an argument.
  The result is the effects of the call and the response, or the error thrown.
\<close>

definition callProviderAPI ::
  "'d AIRequest \<Rightarrow> AIProviderType \<Rightarrow> FetchResult \<Rightarrow> effect list \<times> (error + 'd AIResponse)" where
  "callProviderAPI req p fetched =
     ([Track ''api_call'', Fetch p],
      (case fetched of
         FetchRejects e \<Rightarrow> Inl e
       | HttpFailure status body \<Rightarrow> Inl (thrownBy body)
       | HttpOk body \<Rightarrow>
           (case body of
              Inl e \<Rightarrow> Inl e
            | Inr d \<Rightarrow>
                (if isClaude p \<and> content d = None
                 then Inl (Error ''Cannot read properties of undefined'')
                 else
                   let text =
                         (if isClaude p
                          then (case the (content d) of
                                  [] \<Rightarrow> []
                                | (ty, tx) # _ \<Rightarrow> if ty = ''text'' then tx else [])
                          else (if truthy (choiceContent d) then the (choiceContent d) else []));
                       u =
                         (if isClaude p
                          then \<lparr>promptTokens = orZero (input_tokens d),
                                completionTokens = orZero (output_tokens d),
                                totalTokens = orZero (input_tokens d) + orZero (output_tokens d)\<rparr>
                          else \<lparr>promptTokens = orZero (prompt_tokens d),
                                completionTokens = orZero (completion_tokens d),
                                totalTokens = orZero (total_tokens d)\<rparr>)
                   in Inr \<lparr>rawResponse = Some text, resp_data = None, resp_error = None,
                           success = True, processingTime = None,
                           resp_model = Some (orDefault (model req) ''claude-3-7-sonnet-20250219''),
                           resp_provider = Some p, fromCache = None, fromMCP = None,
                           usage = Some u, resp_metadata = None\<rparr>))))"

section \<open>MCPService: executeRequest\<close>

text \<open>
  One run of \<open>executeRequest\<close> reads the options, the router's table, the rendering of
  numbers, and the world: what \<open>fetch\<close> answers at the attempt numbered \<open>retryCount\<close>,
  and the clock at the start of that attempt (line 221 and the cache lookups) and at its
  end (lines 312 and 363 and the cache writes).
\<close>

record Env =
  env_options :: MCPOptions
  env_table :: "(string \<times> ModelMetadata) list"
  env_numberToString :: "real \<Rightarrow> string"
  fetchResult :: "nat \<Rightarrow> FetchResult"
  startTime :: "nat \<Rightarrow> int"
  endTime :: "nat \<Rightarrow> int"

text \<open>The two caches of the service.\<close>

record 'd Caches =
  exactCache :: "'d AIResponse AICache"
  semanticCache :: "(string \<times> 'd AIResponse SemanticEntry) list"

text \<open>\<open>request.mcpParams || {cacheStrategy: 'exact', cacheTTL: ttl, storeResult: true}\<close>.\<close>

definition paramsOf :: "'d AIRequest \<Rightarrow> int \<Rightarrow> MCPRequestParams" where
  "paramsOf req ttl =
     (case mcpParams req of
        Some p \<Rightarrow> p
      | None \<Rightarrow> \<lparr>cacheStrategy = exact, minSimilarity = None, cacheTTL = Some ttl,
                  priority = None, storeResult = Some True, multiProviderEnabled = None,
                  preferredProvider = None\<rparr>)"

text \<open>
  Lines 228-297: the two cache lookups.  The result is the cached response with its
  similarity, or the error \<open>findSimilar\<close> throws (the lookups stand outside the
  \<open>try\<close> block).  The marks \<open>executeRequest\<close> writes on a cached response are written
  on the value returned, not on the object the cache keeps.
\<close>

definition lookupCaches ::
  "Env \<Rightarrow> 'd AIRequest \<Rightarrow> MCPRequestParams \<Rightarrow> int \<Rightarrow> 'd Caches \<Rightarrow>
   (error + 'd AIResponse option \<times> real) \<times> 'd Caches \<times> effect list" where
  "lookupCaches env req mcp now st =
     (let (cached, c1, eff1) =
            (if cacheStrategy mcp = exact \<or> cacheStrategy mcp = hybrid
             then (case AICache_get now (generateExactCacheKey (env_numberToString env) req)
                          (exactCache st) of
                     (r, c') \<Rightarrow> (r, c', [Track ''exact_cache_check'']))
             else (None, exactCache st, []))
      in if cached = None \<and> (cacheStrategy mcp = semantic \<or> cacheStrategy mcp = hybrid) \<and>
            semanticCacheEnabled (env_options env)
         then (case findSimilar (prompt req)
                      \<lparr>opt_model = model req, opt_systemPrompt = systemPrompt req,
                       opt_minSimilarity =
                         (case minSimilarity mcp of
                            None \<Rightarrow> 0.8
                          | Some v \<Rightarrow> if v \<noteq> 0 then v else 0.8)\<rparr>
                      now (semanticCache st) of
                 (m', Inl e) \<Rightarrow> (Inl e, \<lparr>exactCache = c1, semanticCache = m'\<rparr>, eff1)
               | (m', Inr None) \<Rightarrow>
                   (Inr (None, 1), \<lparr>exactCache = c1, semanticCache = m'\<rparr>,
                    eff1 @ [Track ''semantic_cache_miss''])
               | (m', Inr (Some found)) \<Rightarrow>
                   (Inr (Some ((result_response found)
                                 \<lparr>resp_metadata :=
                                    Some \<lparr>md_similarity = result_similarity found,
                                          md_cacheStrategy = ''semantic''\<rparr>\<rparr>),
                         result_similarity found),
                    \<lparr>exactCache = c1, semanticCache = m'\<rparr>,
                    eff1 @ [Track ''semantic_cache_hit'']))
         else (Inr (cached, 1), \<lparr>exactCache = c1, semanticCache = semanticCache st\<rparr>, eff1))"

text \<open>Lines 300-334: the answer on a cache hit.\<close>

definition cacheHitResponse ::
  "Env \<Rightarrow> 'd AIRequest \<Rightarrow> 'd AIResponse \<Rightarrow> real \<Rightarrow> int \<Rightarrow> 'd MCPResponse" where
  "cacheHitResponse env req cachedResult sim elapsed =
     (let tokens = (case usage cachedResult of
                      None \<Rightarrow> 500
                    | Some u \<Rightarrow> if totalTokens u \<noteq> 0 then totalTokens u else 500)
      in \<lparr>cacheHit = True, similarity = Some sim,
          response = cachedResult\<lparr>fromCache := Some True, fromMCP := Some True\<rparr>,
          savingsEstimate =
            \<lparr>sv_tokens = tokens,
             sv_cost = estimateCost (env_table env)
                         (if truthy (model req) then the (model req)
                          else ''claude-3-7-sonnet-20250219'')
                         (real tokens * 0.7) (real tokens * 0.3),
             sv_timeMs = elapsed\<rparr>\<rparr>)"

text \<open>\<open>storeInCaches\<close>, lines 579-611.\<close>

definition storeInCaches ::
  "Env \<Rightarrow> 'd AIRequest \<Rightarrow> 'd AIResponse \<Rightarrow> int \<Rightarrow> int \<Rightarrow> 'd Caches \<Rightarrow> 'd Caches" where
  "storeInCaches env req resp ttl now st =
     (let mcp = paramsOf req ttl;
          st1 = (if cacheStrategy mcp = exact \<or> cacheStrategy mcp = hybrid
                 then st\<lparr>exactCache :=
                          AICache_set now now (generateExactCacheKey (env_numberToString env) req)
                            resp (Some ttl) (exactCache st)\<rparr>
                 else st)
      in if (cacheStrategy mcp = semantic \<or> cacheStrategy mcp = hybrid) \<and>
            semanticCacheEnabled (env_options env)
         then st1\<lparr>semanticCache :=
                    snd (store (prompt req) resp (model req) (systemPrompt req) ttl now
                           (semanticCache st1))\<rparr>
         else st1)"

text \<open>
  \<open>MCPService.getProviderForModel\<close>, lines 627-630: \<open>CLAUDE\<close> for no model, the
  router's answer otherwise.
\<close>

definition MCPService_getProviderForModel ::
  "(string \<times> ModelMetadata) list \<Rightarrow> string option \<Rightarrow> AIProviderType" where
  "MCPService_getProviderForModel table m =
     (if truthy m then getProviderForModel table (the m) else CLAUDE)"

text \<open>
  Lines 337-399: the \<open>try\<close> block of the attempt numbered \<open>retryCount\<close>.  Only
  \<open>callProviderAPI\<close> throws in it: a parser's error is caught at line 348, and the
  cache writes do not throw.
\<close>

definition attempt ::
  "Env \<Rightarrow> 'd AIRequest \<Rightarrow> MCPRequestParams \<Rightarrow> nat \<Rightarrow> 'd Caches \<Rightarrow>
   (error + 'd AIResponse) \<times> 'd Caches \<times> effect list" where
  "attempt env req mcp retryCount st =
     (let p = MCPService_getProviderForModel (env_table env) (model req)
      in case callProviderAPI req p (fetchResult env retryCount) of
           (effC, Inl e) \<Rightarrow> (Inl e, st, effC)
         | (effC, Inr resp) \<Rightarrow>
             (let (parsedData, parsingError) =
                    (case parseResponse req of
                       None \<Rightarrow> (None, None)
                     | Some parser \<Rightarrow>
                         if truthy (rawResponse resp)
                         then (case parser (the (rawResponse resp)) of
                                 Inr d \<Rightarrow> (Some d, None)
                               | Inl (Error msg) \<Rightarrow> (None, Some msg)
                               | Inl NonError \<Rightarrow> (None, Some ''Parsing failed''))
                         else (None, None));
                  effP = (if parsingError = None then [] else [Track ''parsing_error'']);
                  resp' = resp\<lparr>resp_data := parsedData,
                               resp_error := (if truthy parsingError then parsingError
                                              else resp_error resp),
                               success := (parsingError = None \<and> success resp),
                               processingTime :=
                                 Some (endTime env retryCount - startTime env retryCount),
                               fromMCP := Some True\<rparr>
              in if storeResult mcp = Some True
                 then (Inr resp',
                       storeInCaches env req resp'
                         (case cacheTTL mcp of
                            None \<Rightarrow> defaultTTL (env_options env)
                          | Some t \<Rightarrow> if t \<noteq> 0 then t else defaultTTL (env_options env))
                         (endTime env retryCount) st,
                       effC @ effP @ [Track ''store_in_cache''])
                 else (Inr resp', st, effC @ effP)))"

text \<open>Lines 427-443: the answer when the retries are used up.\<close>

definition errorResponse :: "error \<Rightarrow> 'd MCPResponse" where
  "errorResponse e =
     \<lparr>cacheHit = False, similarity = None,
      response =
        \<lparr>rawResponse = None, resp_data = None,
         resp_error = Some (case e of Error msg \<Rightarrow> msg | NonError \<Rightarrow> ''Unknown error''),
         success = False, processingTime = None, resp_model = None, resp_provider = None,
         fromCache = None, fromMCP = Some True, usage = None, resp_metadata = None\<rparr>,
      savingsEstimate = \<lparr>sv_tokens = 0, sv_cost = Some 0, sv_timeMs = 0\<rparr>\<rparr>"

text \<open>
  \<open>executeRequest\<close>, lines 217-445.  The result is \<open>None\<close> when the run never
  returns; otherwise it is what the promise settles with (the \<open>MCPResponse\<close> it
  resolves with, or the error it rejects with), the caches after the run, and the effects
  of the run in order.
\<close>

partial_function (option) executeRequest ::
  "Env \<Rightarrow> 'd AIRequest \<Rightarrow> nat \<Rightarrow> 'd Caches \<Rightarrow>
   ((error + 'd MCPResponse) \<times> 'd Caches \<times> effect list) option" where
  "executeRequest env req retryCount st =
     (let mcp = paramsOf req (defaultTTL (env_options env))
      in case lookupCaches env req mcp (startTime env retryCount) st of
           (Inl e, st1, eff1) \<Rightarrow> Some (Inl e, st1, eff1)
         | (Inr (Some cachedResult, sim), st1, eff1) \<Rightarrow>
             Some (Inr (cacheHitResponse env req cachedResult sim
                          (endTime env retryCount - startTime env retryCount)),
                   st1, eff1 @ [Track ''cache_hit''])
         | (Inr (None, sim), st1, eff1) \<Rightarrow>
             (case attempt env req mcp retryCount st1 of
                (Inr resp, st2, eff2) \<Rightarrow>
                  Some (Inr \<lparr>cacheHit = False, similarity = None, response = resp,
                             savingsEstimate =
                               \<lparr>sv_tokens = 0, sv_cost = Some 0, sv_timeMs = 0\<rparr>\<rparr>,
                        st2, eff1 @ eff2)
              | (Inl e, st2, eff2) \<Rightarrow>
                  if jsLess retryCount (maxRetries (env_options env))
                  then Option.bind (executeRequest env req (retryCount + 1) st2)
                         (\<lambda>(r, st3, eff3).
                            Some (r, st3,
                                  eff1 @ eff2 @
                                  [Delay (retryDelay (env_options env) * 2 ^ retryCount)] @ eff3))
                  else Some (Inr (errorResponse e), st2,
                             eff1 @ eff2 @ [Track ''request_failed''])))"

text \<open>
  The caches at the start of the attempt numbered \<open>i\<close>, in a run whose earlier
  attempts found nothing in the caches and failed: a failed attempt writes nothing, so
  only the lookups of the earlier attempts have touched the caches.
\<close>

fun cachesAt :: "Env \<Rightarrow> 'd AIRequest \<Rightarrow> 'd Caches \<Rightarrow> nat \<Rightarrow> 'd Caches" where
  "cachesAt env req st 0 = st"
| "cachesAt env req st (Suc i) =
     fst (snd (lookupCaches env req (paramsOf req (defaultTTL (env_options env)))
                 (startTime env i) (cachesAt env req st i)))"

text \<open>What a run did: the number of calls of \<open>fetch\<close>, and the waits in order.\<close>

fun fetchCount :: "effect list \<Rightarrow> nat" where
  "fetchCount [] = 0"
| "fetchCount (Fetch p # es) = Suc (fetchCount es)"
| "fetchCount (e # es) = fetchCount es"

fun delays :: "effect list \<Rightarrow> real list" where
  "delays [] = []"
| "delays (Delay d # es) = d # delays es"
| "delays (e # es) = delays es"

section \<open>MCPService: enqueue, the dispatcher and the timeout\<close>

text \<open>\<open>selectOptimalModel\<close>, lines 635-682.\<close>

definition emptyMetadata :: RequestMetadata where
  "emptyMetadata =
     \<lparr>md_type = None, complexity = None, requiresReasoning = False,
      requiresCreativity = False, requiresCode = False, requiresMath = False,
      requiresFactual = False, md_promptTokens = None, expectedOutputTokens = None\<rparr>"

definition selectOptimalModel :: "Env \<Rightarrow> 'd AIRequest \<Rightarrow> string" where
  "selectOptimalModel env req =
     (let md = orDefault (metadata req) emptyMetadata;
          mcp = paramsOf req (defaultTTL (env_options env));
          complexityLevel =
            (if complexity md = Some ''simple'' \<or> complexity md = Some ''low'' then low
             else if complexity md = Some ''complex'' \<or> complexity md = Some ''high'' then high
             else medium);
          taskType = (if truthy (md_type md) then the (md_type md) else ''general'');
          requiredCapabilities =
            (if requiresReasoning md then [''reasoning''] else []) @
            (if requiresCreativity md then [''creative''] else []) @
            (if requiresCode md then [''code''] else []) @
            (if requiresMath md then [''math''] else []) @
            (if requiresFactual md then [''factual''] else []);
          promptTokenEstimate =
            (case md_promptTokens md of
               None \<Rightarrow> real (length (prompt req)) / 4
             | Some n \<Rightarrow> if n \<noteq> 0 then n else real (length (prompt req)) / 4);
          outputTokenEstimate =
            (case expectedOutputTokens md of
               None \<Rightarrow> 800
             | Some n \<Rightarrow> if n \<noteq> 0 then n else 800)
      in selectModel (env_table env)
           \<lparr>so_taskType = Some taskType,
            so_promptTokenEstimate = Some promptTokenEstimate,
            so_outputTokenEstimate = Some outputTokenEstimate,
            so_priority = Some (orDefault (priority mcp) quality),
            so_requiredCapabilities = Some requiredCapabilities,
            so_preferredProvider = Some (orDefault (preferredProvider mcp) CLAUDE),
            so_complexityLevel = Some complexityLevel\<rparr>)"

text \<open>
  A promise of \<open>enqueue\<close>: pending, resolved with a response, or rejected with an
  error.  It settles once: a later \<open>resolve\<close> or \<open>reject\<close> changes nothing.
\<close>

datatype 'a promise = Pending | Resolved 'a | Rejected error


text \<open>
  The service: the queue, the flag \<open>processingQueue\<close>, the entry \<open>processQueue\<close> has
  taken out of the queue and is awaiting \<open>executeRequest\<close> for, the caches, the promises
  by request id, and the effects so far.
\<close>

record 'd MCPService =
  requestQueue :: "(string \<times> 'd QueueEntry) list"
  processingQueue :: bool
  inFlight :: "'d QueueEntry option"
  caches :: "'d Caches"
  promises :: "(string \<times> 'd MCPResponse promise) list"
  events :: "effect list"

text \<open>
  \<open>processQueue\<close>, lines 156-179, up to its \<open>await\<close>: the test of the loop, and
  \<open>getNextRequest\<close>.  The loop ends (and clears the flag) at an empty queue and when
  \<open>getNextRequest\<close> returns \<open>null\<close>.
\<close>

definition processQueue_loop :: "'d MCPService \<Rightarrow> 'd MCPService" where
  "processQueue_loop s =
     (if length (requestQueue s) > 0
      then (case getNextRequest (requestQueue s) of
              (None, q) \<Rightarrow> s\<lparr>processingQueue := False\<rparr>
            | (Some entry, q) \<Rightarrow> s\<lparr>requestQueue := q, inFlight := Some entry\<rparr>)
      else s\<lparr>processingQueue := False\<rparr>)"

definition processQueue :: "'d MCPService \<Rightarrow> 'd MCPService" where
  "processQueue s = processQueue_loop (s\<lparr>processingQueue := True\<rparr>)"

text \<open>
  \<open>enqueue\<close>, lines 91-151, for the request id \<open>rid\<close> it draws and the clock \<open>now\<close>.
  The timer of line 132 fires later, as \<open>timeoutFires\<close>.
\<close>

definition enqueue ::
  "Env \<Rightarrow> string \<Rightarrow> int \<Rightarrow> 'd AIRequest \<Rightarrow> QueuePriority \<Rightarrow> 'd MCPService \<Rightarrow> 'd MCPService" where
  "enqueue env rid now req p s =
     (let routed = smartRoutingEnabled (env_options env) \<and> \<not> truthy (model req);
          req' = (if routed then req\<lparr>model := Some (selectOptimalModel env req)\<rparr> else req);
          s1 = s\<lparr>requestQueue :=
                   mapSet rid \<lparr>request = req', qe_priority = priorityLevels (env_options env) p,
                               qe_timestamp = now, promiseOf = rid\<rparr> (requestQueue s),
                 promises := mapSet rid Pending (promises s),
                 events := events s @ [Track ''mcp_request''] @
                           (if routed then [Track ''smart_routing''] else [])\<rparr>
      in if \<not> processingQueue s1 then processQueue s1 else s1)"



text \<open>The service after its constructor: nothing queued, the dispatcher idle.\<close>

definition newService :: "'d Caches \<Rightarrow> 'd MCPService" where
  "newService st =
     \<lparr>requestQueue = [], processingQueue = False, inFlight = None, caches = st,
      promises = [], events = []\<rparr>"

section \<open>Example inputs\<close>

text \<open>
  The request and the answer of tests/mcp.test.ts (lines 14-35), the two caches empty
  (the exact cache with the options of the exported \<open>aiCache\<close>), and a run with given
  \<open>maxRetries\<close>, \<open>retryDelay\<close> and answers of \<open>fetch\<close>; \<open>numberToString\<close> renders the
  temperature 0.5 of the request.
\<close>

definition exampleRequest :: "string AIRequest" where
  "exampleRequest =
     \<lparr>prompt = ''Test prompt'', model = Some ''claude-3-7-sonnet-20250219'',
      systemPrompt = None, temperature = Some 0.5, parseResponse = None, metadata = None,
      mcpParams = None\<rparr>"

definition exampleAnswer :: ApiData where
  "exampleAnswer =
     \<lparr>content = Some [(''text'', ''This is a test response'')], choiceContent = None,
      input_tokens = Some 100, output_tokens = Some 50, prompt_tokens = None,
      completion_tokens = None, total_tokens = None\<rparr>"

definition emptyCaches :: "string Caches" where
  "emptyCaches =
     \<lparr>exactCache = \<lparr>cache = [], options_ttl = 3600000, options_maxSize = 50\<rparr>,
      semanticCache = []\<rparr>"

definition exampleEnv :: "jsnumber \<Rightarrow> real \<Rightarrow> (nat \<Rightarrow> FetchResult) \<Rightarrow> Env" where
  "exampleEnv retries delay answers =
     \<lparr>env_options = defaultOptions\<lparr>maxRetries := retries, retryDelay := delay\<rparr>,
      env_table = modelsMetadata, env_numberToString = (\<lambda>t. ''0.5''),
      fetchResult = answers, startTime = (\<lambda>i. 1000 * int i),
      endTime = (\<lambda>i. 1000 * int i + 500)\<rparr>"

text \<open>
  Priority weights a caller may pass to the constructor: strictly ordered, and all below
  the value \<open>-1\<close> from which the loop of \<open>getNextRequest\<close> starts.
\<close>

definition negativeLevels :: "QueuePriority \<Rightarrow> int" where
  "negativeLevels p = (case p of High \<Rightarrow> - 2 | Normal \<Rightarrow> - 3 | Low \<Rightarrow> - 4)"

section \<open>Facts about the map operations\<close>

lemma mapGet_mapDelete_same: "mapGet k (mapDelete k m) = None"
  by (induction m) auto

lemma mapGet_mapSet_same: "mapGet k (mapSet k v m) = Some v"
  by (induction m) auto

lemma mapGet_Some_mem: "mapGet k m = Some v \<Longrightarrow> (k, v) \<in> set m"
  by (induction m) (auto split: if_splits)

lemma mapGet_distinct:
  "distinct (map fst m) \<Longrightarrow> (k, v) \<in> set m \<Longrightarrow> mapGet k m = Some v"
  by (induction m) (auto simp: rev_image_eqI)

lemma mapGet_None_iff: "mapGet k m = None \<longleftrightarrow> k \<notin> fst ` set m"
  by (induction m) (auto split: if_splits)

section \<open>AICache: capacity\<close>

text \<open>
  C10 (the cache never exceeds \<open>maxSize\<close> after \<open>set\<close>).  The code run at a cache
  of capacity 1 and two calls of \<open>set\<close> in the same millisecond: at the second call
  \<open>removeOldestItem\<close> finds no timestamp strictly below \<open>Date.now()\<close> and removes
  nothing, and \<open>set\<close> inserts a second entry.
\<close>

theorem AICache_set_exceeds_maxSize:
  "options_maxSize
     (AICache_set 5 5 ''a'' ''x'' None \<lparr>cache = [], options_ttl = 1000, options_maxSize = 1\<rparr>) = 1 \<and>
   length (cache
     (AICache_set 5 5 ''a'' ''x'' None \<lparr>cache = [], options_ttl = 1000, options_maxSize = 1\<rparr>)) = 1 \<and>
   length (cache
     (AICache_set 5 5 ''b'' ''y'' None
        (AICache_set 5 5 ''a'' ''x'' None
           \<lparr>cache = [], options_ttl = 1000, options_maxSize = 1\<rparr>))) = 2"
  by (simp add: AICache_set_def removeOldestItem_def)

section \<open>The loop of findSimilar\<close>

lemma snd_scanEntries_Cons:
  "snd (scanEntries qe options now ((key, entry) # rest) h b) =
     (if entry_expiresAt entry < now then snd (scanEntries qe options now rest h b)
      else if truthy (opt_model options) \<and> truthy (entry_model entry) \<and>
              entry_model entry \<noteq> opt_model options
      then snd (scanEntries qe options now rest h b)
      else (case cosineSimilarity qe (embedding entry) of
              Inl e \<Rightarrow> Inl e
            | Inr sim \<Rightarrow>
                if sim > h \<and> sim \<ge> opt_minSimilarity options
                then snd (scanEntries qe options now rest sim
                             (Some \<lparr>result_response = entry_response entry,
                                    result_similarity = sim, cacheKey = key\<rparr>))
                else snd (scanEntries qe options now rest h b)))"
  by (auto split: prod.splits sum.splits)

lemma scanEntries_source:
  "snd (scanEntries qe options now m h b) = Inr (Some r) \<Longrightarrow>
   b = Some r \<or>
   (\<exists>k e. (k, e) \<in> set m \<and> candidate now options e \<and>
          cosineSimilarity qe (embedding e) = Inr (result_similarity r) \<and>
          result_similarity r > h \<and> result_similarity r \<ge> opt_minSimilarity options \<and>
          cacheKey r = k \<and> result_response r = entry_response e)"
proof (induction m arbitrary: h b)
  case Nil
  then show ?case by simp
next
  case (Cons x m)
  obtain key entry where x: "x = (key, entry)" by (cases x)
  show ?case
  proof (cases "candidate now options entry")
    case False
    with Cons.prems x have "snd (scanEntries qe options now m h b) = Inr (Some r)"
      by (auto simp: candidate_def snd_scanEntries_Cons simp del: scanEntries.simps split: if_splits)
    from Cons.IH[OF this] show ?thesis by auto
  next
    case True
    show ?thesis
    proof (cases "cosineSimilarity qe (embedding entry)")
      case (Inl e)
      with Cons.prems x True show ?thesis by (auto simp: candidate_def snd_scanEntries_Cons simp del: scanEntries.simps split: if_splits)
    next
      case (Inr s)
      show ?thesis
      proof (cases "s > h \<and> s \<ge> opt_minSimilarity options")
        case False
        with Cons.prems x True Inr have "snd (scanEntries qe options now m h b) = Inr (Some r)"
          by (auto simp: candidate_def snd_scanEntries_Cons simp del: scanEntries.simps split: if_splits)
        from Cons.IH[OF this] show ?thesis by auto
      next
        case sel: True
        let ?new = "\<lparr>result_response = entry_response entry, result_similarity = s, cacheKey = key\<rparr>"
        from Cons.prems x True Inr sel
        have "snd (scanEntries qe options now m s (Some ?new)) = Inr (Some r)"
          by (auto simp: candidate_def snd_scanEntries_Cons simp del: scanEntries.simps split: if_splits)
        from Cons.IH[OF this] show ?thesis
        proof
          assume "Some ?new = Some r"
          then have "r = ?new" by simp
          with x True Inr sel show ?thesis by auto
        next
          assume "\<exists>k e. (k, e) \<in> set m \<and> candidate now options e \<and>
            cosineSimilarity qe (embedding e) = Inr (result_similarity r) \<and>
            s < result_similarity r \<and> opt_minSimilarity options \<le> result_similarity r \<and>
            cacheKey r = k \<and> result_response r = entry_response e"
          with sel show ?thesis by force
        qed
      qed
    qed
  qed
qed

lemma scanEntries_max:
  "snd (scanEntries qe options now m h b) = Inr (Some r) \<Longrightarrow>
   (\<And>rb. b = Some rb \<Longrightarrow> result_similarity rb = h) \<Longrightarrow>
   result_similarity r \<ge> h \<and>
   (\<forall>k e s. (k, e) \<in> set m \<longrightarrow> candidate now options e \<longrightarrow>
      cosineSimilarity qe (embedding e) = Inr s \<longrightarrow> opt_minSimilarity options \<le> s \<longrightarrow> s \<le> result_similarity r)"
proof (induction m arbitrary: h b)
  case Nil
  then show ?case by simp
next
  case (Cons x m)
  obtain key entry where x: "x = (key, entry)" by (cases x)
  show ?case
  proof (cases "candidate now options entry")
    case False
    with Cons.prems x have "snd (scanEntries qe options now m h b) = Inr (Some r)"
      by (auto simp: candidate_def snd_scanEntries_Cons simp del: scanEntries.simps split: if_splits)
    from Cons.IH[OF this Cons.prems(2)] False x show ?thesis by auto
  next
    case True
    show ?thesis
    proof (cases "cosineSimilarity qe (embedding entry)")
      case (Inl e)
      with Cons.prems x True show ?thesis by (auto simp: candidate_def snd_scanEntries_Cons simp del: scanEntries.simps split: if_splits)
    next
      case (Inr s)
      show ?thesis
      proof (cases "s > h \<and> s \<ge> opt_minSimilarity options")
        case False
        with Cons.prems x True Inr have "snd (scanEntries qe options now m h b) = Inr (Some r)"
          by (auto simp: candidate_def snd_scanEntries_Cons simp del: scanEntries.simps split: if_splits)
        from Cons.IH[OF this Cons.prems(2)] False x Inr show ?thesis by auto
      next
        case sel: True
        let ?new = "\<lparr>result_response = entry_response entry, result_similarity = s, cacheKey = key\<rparr>"
        from Cons.prems x True Inr sel
        have "snd (scanEntries qe options now m s (Some ?new)) = Inr (Some r)"
          by (auto simp: candidate_def snd_scanEntries_Cons simp del: scanEntries.simps split: if_splits)
        from Cons.IH[OF this, of ] have
          "result_similarity r \<ge> s \<and>
           (\<forall>k e s. (k, e) \<in> set m \<longrightarrow> candidate now options e \<longrightarrow>
              cosineSimilarity qe (embedding e) = Inr s \<longrightarrow> opt_minSimilarity options \<le> s \<longrightarrow> s \<le> result_similarity r)"
          by simp
        with sel x Inr show ?thesis by auto
      qed
    qed
  qed
qed

lemma scanEntries_none:
  "(\<And>k e. (k, e) \<in> set m \<Longrightarrow> candidate now options e \<Longrightarrow>
      \<exists>s. cosineSimilarity qe (embedding e) = Inr s \<and> s < opt_minSimilarity options) \<Longrightarrow>
   snd (scanEntries qe options now m h b) = Inr b"
proof (induction m)
  case Nil
  then show ?case by simp
next
  case (Cons x m)
  obtain key entry where x: "x = (key, entry)" by (cases x)
  have IH: "snd (scanEntries qe options now m h b) = Inr b"
    using Cons by auto
  show ?case
  proof (cases "candidate now options entry")
    case False
    with IH x show ?thesis by (auto simp: candidate_def snd_scanEntries_Cons simp del: scanEntries.simps split: if_splits)
  next
    case True
    with Cons.prems[of key entry] x obtain s where
      "cosineSimilarity qe (embedding entry) = Inr s" "s < opt_minSimilarity options" by auto
    with IH x True show ?thesis by (auto simp: candidate_def snd_scanEntries_Cons simp del: scanEntries.simps split: if_splits)
  qed
qed

lemma scanEntries_kept:
  "scanEntries qe options now m h b = (m', Inr res) \<Longrightarrow>
   set m' = {(k, e). (k, e) \<in> set m \<and> \<not> entry_expiresAt e < now} \<and> map fst m' = map fst (filter (\<lambda>(k, e). \<not> entry_expiresAt e < now) m)"
proof (induction m arbitrary: h b m')
  case Nil
  then show ?case by simp
next
  case (Cons x m)
  obtain key entry where x: "x = (key, entry)" by (cases x)
  from Cons.prems x show ?case
    by (auto split: if_splits prod.splits sum.splits dest!: Cons.IH)
qed

lemma scanEntries_keys:
  "scanEntries qe options now m h b = (m', Inr res) \<Longrightarrow>
   set m' = {(k, e). (k, e) \<in> set m \<and> \<not> entry_expiresAt e < now}"
  using scanEntries_kept by blast

section \<open>Cosine similarity at concrete vectors\<close>

lemma sum_list_squares_nonneg: "0 \<le> sum_list (map (\<lambda>a. a * a) (v :: real list))"
  by (rule sum_list_nonneg) auto

lemma sum_list_squares_eq_0: "sum_list (map (\<lambda>a. a * a) (v :: real list)) = 0 \<longleftrightarrow> (\<forall>a \<in> set v. a = 0)"
proof (induction v)
  case Nil
  then show ?case by simp
next
  case (Cons x v)
  have "x * x + sum_list (map (\<lambda>a. a * a) v) = 0 \<longleftrightarrow> x * x = 0 \<and> sum_list (map (\<lambda>a. a * a) v) = 0"
    using sum_list_squares_nonneg[of v] by (intro add_nonneg_eq_0_iff) auto
  with Cons show ?case by auto
qed

lemma cosineSimilarity_self:
  assumes "a \<in> set v" "a \<noteq> 0"
  shows "cosineSimilarity v v = Inr 1"
proof -
  let ?S = "sum_list (map (\<lambda>a. a * a) v)"
  have nz: "?S \<noteq> 0" using assms by (auto simp: sum_list_squares_eq_0)
  have nn: "?S \<ge> 0" by (rule sum_list_squares_nonneg)
  have dot: "sum_list (map (\<lambda>(a, b). a * b) (zip v v)) = ?S"
    by (induction v) auto
  have "sqrt ?S * sqrt ?S = ?S" using nn by simp
  then show ?thesis using nz nn by (simp add: cosineSimilarity_def dot Let_def)
qed

lemma simpleHash_a0: "simpleHash ''a'' 0 = 97"
  by (simp add: simpleHash_def)

lemma words_a: "uniqueWords (splitSpaces (toLowerCase ''a'') []) = [''a'']"
  by (simp add: uniqueWords_def toLowerCase_def isSpace_def)

lemma getEmbedding_a_nonzero: "\<exists>a \<in> set (getEmbedding ''a''). a \<noteq> 0"
proof -
  define f :: "nat \<Rightarrow> real" where
    "f = (\<lambda>i. real_of_int (sum_list (map (\<lambda>w. simpleHash w i) [''a''])) / 100)"
  define emb where "emb = map f [0 ..< 128]"
  define mag where "mag = sqrt (sum_list (map (\<lambda>val. val * val) emb))"
  have len: "length emb = 128" by (simp add: emb_def del: upt.simps upt_rec_numeral)
  have "emb ! 0 = f (0 + 0)" unfolding emb_def by (rule nth_map_upt) simp
  then have e0: "emb ! 0 = 97 / 100" by (simp add: f_def simpleHash_a0)
  have "emb ! 0 \<in> set emb" by (rule nth_mem) (simp add: len)
  with e0 have "\<exists>a \<in> set emb. a \<noteq> 0" by force
  then have "sum_list (map (\<lambda>val. val * val) emb) \<noteq> 0" by (simp only: sum_list_squares_eq_0) blast
  then have mag: "mag \<noteq> 0" by (simp add: mag_def)
  have ge: "getEmbedding ''a'' = map (\<lambda>val. val / mag) emb"
    unfolding getEmbedding_def words_a Let_def mag_def emb_def f_def ..
  have "getEmbedding ''a'' ! 0 = emb ! 0 / mag"
    unfolding ge by (rule nth_map) (simp add: len)
  then have "getEmbedding ''a'' ! 0 \<noteq> 0" using e0 mag by simp
  moreover have "getEmbedding ''a'' ! 0 \<in> set (getEmbedding ''a'')"
    by (rule nth_mem) (simp add: ge len)
  ultimately show ?thesis by blast
qed

lemma cos_a: "cosineSimilarity (getEmbedding ''a'') (getEmbedding ''a'') = Inr 1"
  using getEmbedding_a_nonzero cosineSimilarity_self by blast

lemma getEmbedding_length: "length (getEmbedding t) = 128"
  by (simp add: getEmbedding_def Let_def del: upt.simps upt_rec_numeral)

lemma cosineSimilarity_zero: "length v = n \<Longrightarrow> cosineSimilarity v (replicate n 0) = Inr 0"
proof -
  have "sum_list (replicate n (0::real)) = 0" by (induction n) auto
  then show ?thesis if "length v = n" using that by (simp add: cosineSimilarity_def Let_def)
qed

section \<open>Semantic lookup: threshold and best match\<close>

text \<open>
  C3.  When \<open>findSimilar\<close> returns a result, its similarity is at least
  \<open>minSimilarity\<close>, it is the similarity and the response of an entry of the cache that
  is neither expired nor of another model, and no such entry has a higher cosine
  similarity with the query.  When every such entry stays below \<open>minSimilarity\<close>, the
  result is none.
\<close>

theorem findSimilar_threshold_and_best:
  fixes m :: "(string \<times> 'r SemanticEntry) list"
  shows
  "(findSimilar q options now m = (m', Inr (Some r)) \<longrightarrow>
      opt_minSimilarity options \<le> result_similarity r \<and>
      (\<exists>e. (cacheKey r, e) \<in> set m \<and> candidate now options e \<and>
           result_response r = entry_response e \<and>
           cosineSimilarity (getEmbedding q) (embedding e) = Inr (result_similarity r)) \<and>
      (\<forall>k e s. (k, e) \<in> set m \<and> candidate now options e \<and>
           cosineSimilarity (getEmbedding q) (embedding e) = Inr s \<longrightarrow> s \<le> result_similarity r)) \<and>
   ((\<forall>k e. (k, e) \<in> set m \<and> candidate now options e \<longrightarrow>
        (\<exists>s. cosineSimilarity (getEmbedding q) (embedding e) = Inr s \<and> s < opt_minSimilarity options)) \<longrightarrow>
      snd (findSimilar q options now m) = Inr None)"
proof (intro conjI impI)
  assume res: "findSimilar q options now m = (m', Inr (Some r))"
  then have s: "snd (scanEntries (getEmbedding q) options now m (- 1) None) = Inr (Some r)"
    by (simp add: findSimilar_def)
  from scanEntries_source[OF s]
  obtain k e where src: "(k, e) \<in> set m" "candidate now options e"
      "cosineSimilarity (getEmbedding q) (embedding e) = Inr (result_similarity r)"
      "result_similarity r \<ge> opt_minSimilarity options" "cacheKey r = k"
      "result_response r = entry_response e"
    by auto
  show "opt_minSimilarity options \<le> result_similarity r" by (rule src(4))
  show "\<exists>e. (cacheKey r, e) \<in> set m \<and> candidate now options e \<and>
           result_response r = entry_response e \<and>
           cosineSimilarity (getEmbedding q) (embedding e) = Inr (result_similarity r)"
    using src by auto
  have mx: "\<forall>k e s. (k, e) \<in> set m \<longrightarrow> candidate now options e \<longrightarrow>
      cosineSimilarity (getEmbedding q) (embedding e) = Inr s \<longrightarrow>
      opt_minSimilarity options \<le> s \<longrightarrow> s \<le> result_similarity r"
    using scanEntries_max[OF s] by simp
  show "\<forall>k e s. (k, e) \<in> set m \<and> candidate now options e \<and>
           cosineSimilarity (getEmbedding q) (embedding e) = Inr s \<longrightarrow> s \<le> result_similarity r"
  proof (intro allI impI)
    fix k e s
    assume a: "(k, e) \<in> set m \<and> candidate now options e \<and>
           cosineSimilarity (getEmbedding q) (embedding e) = Inr s"
    show "s \<le> result_similarity r"
    proof (cases "opt_minSimilarity options \<le> s")
      case True
      with mx a show ?thesis by blast
    next
      case False
      with src(4) show ?thesis by simp
    qed
  qed
next
  assume "\<forall>k e. (k, e) \<in> set m \<and> candidate now options e \<longrightarrow>
        (\<exists>s. cosineSimilarity (getEmbedding q) (embedding e) = Inr s \<and> s < opt_minSimilarity options)"
  then show "snd (findSimilar q options now m) = Inr None"
    unfolding findSimilar_def by (intro scanEntries_none) blast
qed

text \<open>
  The theorem at a cache of two live entries, of similarity 0 and 1 with the query
  \<open>a\<close>, and \<open>minSimilarity = 0.8\<close>: the entry of similarity 1 is returned.
\<close>

theorem findSimilar_threshold_and_best_witness:
  "findSimilar ''a'' \<lparr>opt_model = Some ''gpt-4o'', opt_systemPrompt = None, opt_minSimilarity = 0.8\<rparr> 5
     [(''k0'', \<lparr>embedding = replicate 128 0, entry_response = ''r0'', entry_expiresAt = 9,
               query = ''zero'', entry_systemPrompt = None, entry_model = None\<rparr>),
      (''k1'', \<lparr>embedding = getEmbedding ''a'', entry_response = ''r1'', entry_expiresAt = 9,
               query = ''a'', entry_systemPrompt = None, entry_model = Some ''gpt-4o''\<rparr>)]
   = ([(''k0'', \<lparr>embedding = replicate 128 0, entry_response = ''r0'', entry_expiresAt = 9,
               query = ''zero'', entry_systemPrompt = None, entry_model = None\<rparr>),
      (''k1'', \<lparr>embedding = getEmbedding ''a'', entry_response = ''r1'', entry_expiresAt = 9,
               query = ''a'', entry_systemPrompt = None, entry_model = Some ''gpt-4o''\<rparr>)],
      Inr (Some \<lparr>result_response = ''r1'', result_similarity = 1, cacheKey = ''k1''\<rparr>)) \<and>
   opt_minSimilarity \<lparr>opt_model = Some ''gpt-4o'', opt_systemPrompt = None, opt_minSimilarity = 0.8\<rparr>
     \<le> result_similarity \<lparr>result_response = ''r1'', result_similarity = 1, cacheKey = ''k1''\<rparr> \<and>
   cosineSimilarity (getEmbedding ''a'') (replicate 128 0) = Inr 0 \<and>
   (0 :: real) \<le> result_similarity \<lparr>result_response = ''r1'', result_similarity = 1, cacheKey = ''k1''\<rparr>"
proof -
  let ?o = "\<lparr>opt_model = Some ''gpt-4o'', opt_systemPrompt = None, opt_minSimilarity = 0.8\<rparr>"
  let ?e0 = "\<lparr>embedding = replicate 128 0, entry_response = ''r0'', entry_expiresAt = 9,
               query = ''zero'', entry_systemPrompt = None, entry_model = None\<rparr>"
  let ?e1 = "\<lparr>embedding = getEmbedding ''a'', entry_response = ''r1'', entry_expiresAt = 9,
               query = ''a'', entry_systemPrompt = None, entry_model = Some ''gpt-4o''\<rparr>"
  let ?m = "[(''k0'', ?e0), (''k1'', ?e1)]"
  let ?r = "\<lparr>result_response = ''r1'', result_similarity = 1, cacheKey = ''k1''\<rparr>"
  have z: "cosineSimilarity (getEmbedding ''a'') (replicate 128 0) = Inr 0"
    by (rule cosineSimilarity_zero) (rule getEmbedding_length)
  have run: "findSimilar ''a'' ?o 5 ?m = (?m, Inr (Some ?r))"
    by (simp add: findSimilar_def z cos_a truthy_def)
  have c0: "candidate 5 ?o ?e0" by (simp add: candidate_def truthy_def)
  from findSimilar_threshold_and_best[of "''a''" ?o 5 ?m ?m ?r] run
  have "opt_minSimilarity ?o \<le> result_similarity ?r"
    and "\<forall>k e s. (k, e) \<in> set ?m \<and> candidate 5 ?o e \<and>
           cosineSimilarity (getEmbedding ''a'') (embedding e) = Inr s \<longrightarrow> s \<le> result_similarity ?r"
    by blast+
  from this(1) this(2)[rule_format, of "''k0''" ?e0 0] c0 z run show ?thesis by simp
qed

section \<open>Expiry of cache entries\<close>

text \<open>
  C4, as the code has it.  \<open>set\<close> and \<open>store\<close> at time \<open>t\<close> with TTL \<open>\<tau>\<close> record
  \<open>expiresAt = t + \<tau>\<close>.  At every time \<open>t' > t + \<tau>\<close>, \<open>AICache.get\<close> returns
  null and deletes the entry, and \<open>findSimilar\<close> never returns the entry and deletes it
  when its loop runs to the end.  The comparison is strict in both functions.
\<close>

theorem ttl_expiry_strict:
  fixes c :: "'a AICache" and m :: "(string \<times> 'r SemanticEntry) list"
  shows
  "(\<tau> \<noteq> 0 \<longrightarrow>
      mapGet key (cache (AICache_set t t0 key d (Some \<tau>) c)) =
        Some \<lparr>data = d, timestamp = t, expiresAt = t + \<tau>, hash = key\<rparr>) \<and>
   (mapGet key (cache c) = Some item \<and> expiresAt item = t + \<tau> \<and> t + \<tau> < t' \<longrightarrow>
      AICache_get t' key c = (None, c\<lparr>cache := mapDelete key (cache c)\<rparr>) \<and>
      mapGet key (cache (snd (AICache_get t' key c))) = None) \<and>
   (\<exists>e. mapGet (fst (store q resp mo sp \<tau> t m)) (snd (store q resp mo sp \<tau> t m)) = Some e \<and>
        entry_expiresAt e = t + \<tau> \<and> entry_response e = resp) \<and>
   (distinct (map fst m) \<and> (k, e) \<in> set m \<and> entry_expiresAt e = t + \<tau> \<and> t + \<tau> < t' \<longrightarrow>
      (\<forall>r. snd (findSimilar q' options t' m) = Inr (Some r) \<longrightarrow> cacheKey r \<noteq> k) \<and>
      (\<forall>m' res. findSimilar q' options t' m = (m', Inr res) \<longrightarrow> mapGet k m' = None))"
proof (intro conjI impI allI)
  assume "\<tau> \<noteq> 0"
  then show "mapGet key (cache (AICache_set t t0 key d (Some \<tau>) c)) =
        Some \<lparr>data = d, timestamp = t, expiresAt = t + \<tau>, hash = key\<rparr>"
    by (simp add: AICache_set_def Let_def mapGet_mapSet_same)
next
  assume a: "mapGet key (cache c) = Some item \<and> expiresAt item = t + \<tau> \<and> t + \<tau> < t'"
  then show "AICache_get t' key c = (None, c\<lparr>cache := mapDelete key (cache c)\<rparr>)"
    by (simp add: AICache_get_def)
  then show "mapGet key (cache (snd (AICache_get t' key c))) = None"
    by (simp add: mapGet_mapDelete_same)
next
  show "\<exists>e. mapGet (fst (store q resp mo sp \<tau> t m)) (snd (store q resp mo sp \<tau> t m)) = Some e \<and>
        entry_expiresAt e = t + \<tau> \<and> entry_response e = resp"
    by (simp add: store_def Let_def mapGet_mapSet_same)
next
  fix r
  assume a: "distinct (map fst m) \<and> (k, e) \<in> set m \<and> entry_expiresAt e = t + \<tau> \<and> t + \<tau> < t'"
    and r: "snd (findSimilar q' options t' m) = Inr (Some r)"
  from r have "snd (scanEntries (getEmbedding q') options t' m (- 1) None) = Inr (Some r)"
    by (simp add: findSimilar_def)
  from scanEntries_source[OF this] obtain e' where
    e': "(cacheKey r, e') \<in> set m" "candidate t' options e'" by auto
  show "cacheKey r \<noteq> k"
  proof
    assume "cacheKey r = k"
    with e' a have "e' = e" by (metis eq_key_imp_eq_value)
    with e'(2) a show False by (simp add: candidate_def)
  qed
next
  fix m' res
  assume a: "distinct (map fst m) \<and> (k, e) \<in> set m \<and> entry_expiresAt e = t + \<tau> \<and> t + \<tau> < t'"
    and r: "findSimilar q' options t' m = (m', Inr res)"
  from r have "set m' = {(k, e). (k, e) \<in> set m \<and> \<not> entry_expiresAt e < t'}"
    unfolding findSimilar_def by (rule scanEntries_keys)
  moreover have "\<And>e'. (k, e') \<in> set m \<Longrightarrow> e' = e" using a by (metis eq_key_imp_eq_value)
  ultimately have "k \<notin> fst ` set m'" using a by auto
  then show "mapGet k m' = None" by (simp add: mapGet_None_iff)
qed

text \<open>The theorem at \<open>t = 0\<close>, \<open>\<tau> = 10\<close> and \<open>t' = 11\<close>.\<close>

theorem ttl_expiry_strict_witness:
  "mapGet ''k'' (cache (AICache_set 0 0 ''k'' ''v'' (Some 10)
      \<lparr>cache = [], options_ttl = 1800000, options_maxSize = 100\<rparr>)) =
     Some \<lparr>data = ''v'', timestamp = 0, expiresAt = 0 + 10, hash = ''k''\<rparr> \<and>
   (0 :: int) + 10 < 11 \<and>
   fst (AICache_get 11 ''k'' (AICache_set 0 0 ''k'' ''v'' (Some 10)
      \<lparr>cache = [], options_ttl = 1800000, options_maxSize = 100\<rparr>)) = None \<and>
   mapGet ''k'' (cache (snd (AICache_get 11 ''k'' (AICache_set 0 0 ''k'' ''v'' (Some 10)
      \<lparr>cache = [], options_ttl = 1800000, options_maxSize = 100\<rparr>)))) = None \<and>
   findSimilar ''a'' \<lparr>opt_model = None, opt_systemPrompt = None, opt_minSimilarity = 0.8\<rparr> 11
     (snd (store ''a'' ''r'' None None 10 0 [])) = ([], Inr None) \<and>
   mapGet (fst (store ''a'' ''r'' None None 10 0 [])) ([] :: (string \<times> string SemanticEntry) list) = None"
proof -
  let ?c0 = "\<lparr>cache = [], options_ttl = 1800000, options_maxSize = 100\<rparr> :: string AICache"
  let ?c1 = "AICache_set 0 0 ''k'' ''v'' (Some 10) ?c0"
  let ?item = "\<lparr>data = ''v'', timestamp = 0, expiresAt = 0 + 10, hash = ''k''\<rparr>"
  let ?o = "\<lparr>opt_model = None, opt_systemPrompt = None, opt_minSimilarity = 0.8\<rparr>"
  let ?st = "store ''a'' ''r'' None None 10 0 ([] :: (string \<times> string SemanticEntry) list)"
  let ?e = "\<lparr>embedding = getEmbedding ''a'', entry_response = ''r'', entry_expiresAt = 0 + 10,
             query = ''a'', entry_systemPrompt = None, entry_model = None\<rparr>"
  note T0 = ttl_expiry_strict[of 10 "''k''" 0 0 "''v''" ?c0 ?item 11 "''a''" "''r''" None None "[]"
            "fst ?st" ?e "''a''" ?o]
  note T = ttl_expiry_strict[of 10 "''k''" 0 0 "''v''" ?c1 ?item 11 "''a''" "''r''" None None
            "snd ?st" "fst ?st" ?e "''a''" ?o]
  have set: "mapGet ''k'' (cache ?c1) = Some ?item" using T0 by simp
  have pre: "mapGet ''k'' (cache ?c1) = Some ?item \<and> expiresAt ?item = 0 + 10 \<and> (0::int) + 10 < 11"
    using set by simp
  have get: "AICache_get 11 ''k'' ?c1 = (None, ?c1\<lparr>cache := mapDelete ''k'' (cache ?c1)\<rparr>)"
    and gone: "mapGet ''k'' (cache (snd (AICache_get 11 ''k'' ?c1))) = None"
    using T pre by blast+
  have st: "snd ?st = [(fst ?st, ?e)]" by (simp add: store_def Let_def)
  have run: "findSimilar ''a'' ?o 11 (snd ?st) = ([], Inr None)"
    by (simp add: st findSimilar_def)
  have pre2: "distinct (map fst (snd ?st)) \<and> (fst ?st, ?e) \<in> set (snd ?st) \<and>
      entry_expiresAt ?e = 0 + 10 \<and> (0::int) + 10 < 11"
    by (simp add: st)
  have "mapGet (fst ?st) ([] :: (string \<times> string SemanticEntry) list) = None"
    using T pre2 run by blast
  with set get gone run show ?thesis by simp
qed

text \<open>
  At \<open>t' = t + \<tau>\<close> itself the entry is still served: \<open>now > expiresAt\<close> and
  \<open>expiresAt < now\<close> are both false there.
\<close>

theorem ttl_expiry_boundary_counterexample:
  "fst (AICache_get (0 + 10) ''k'' (AICache_set 0 0 ''k'' ''v'' (Some 10)
      \<lparr>cache = [], options_ttl = 1800000, options_maxSize = 100\<rparr>)) = Some ''v'' \<and>
   snd (findSimilar ''a'' \<lparr>opt_model = None, opt_systemPrompt = None, opt_minSimilarity = 0.8\<rparr> (0 + 10)
     (snd (store ''a'' ''r'' None None 10 0 []))) =
     Inr (Some \<lparr>result_response = ''r'', result_similarity = 1, cacheKey = ''semantic:0:97''\<rparr>)"
  by (simp add: AICache_get_def AICache_set_def Let_def store_def findSimilar_def cos_a
      simpleHash_a0 showInt_def truthy_def)

section \<open>Strategy presets\<close>

text \<open>
  C7.  The presets have \<open>minSimilarity\<close> 0.65, 0.8 and 0.95 in increasing order, and
  \<open>conservative\<close> caches exactly.  After \<open>setStrategy(s)\<close>, in every state of the
  manager, \<open>getMCPParams\<close> returns the five fields of the preset of \<open>s\<close> together
  with the manager's \<open>multiProviderEnabled\<close> and \<open>preferredProvider\<close>; for a new
  manager these are the three records below, and the two setters of the multi-provider
  settings show in the last two fields only.
\<close>

theorem strategy_presets_ordering:
  "sc_minSimilarity (initialStrategyConfigs aggressive) = 0.65 \<and>
   sc_minSimilarity (initialStrategyConfigs balanced) = 0.8 \<and>
   sc_minSimilarity (initialStrategyConfigs conservative) = 0.95 \<and>
   sc_minSimilarity (initialStrategyConfigs aggressive) < sc_minSimilarity (initialStrategyConfigs balanced) \<and>
   sc_minSimilarity (initialStrategyConfigs balanced) < sc_minSimilarity (initialStrategyConfigs conservative) \<and>
   sc_cacheStrategy (initialStrategyConfigs conservative) = exact \<and>
   strategyConfigs initialConfigManager = initialStrategyConfigs \<and>
   getMCPParams (setStrategy s m) =
     \<lparr>cacheStrategy = sc_cacheStrategy (strategyConfigs m s),
      minSimilarity = Some (sc_minSimilarity (strategyConfigs m s)),
      cacheTTL = Some (sc_cacheTTL (strategyConfigs m s)),
      priority = Some (sc_priority (strategyConfigs m s)),
      storeResult = Some (sc_storeResult (strategyConfigs m s)),
      multiProviderEnabled = Some (cm_multiProviderEnabled m),
      preferredProvider = cm_preferredProvider m\<rparr> \<and>
   getMCPParams (setStrategy aggressive initialConfigManager) =
     \<lparr>cacheStrategy = hybrid, minSimilarity = Some 0.65, cacheTTL = Some 86400000,
      priority = Some speed, storeResult = Some True, multiProviderEnabled = Some False,
      preferredProvider = None\<rparr> \<and>
   getMCPParams (setStrategy balanced initialConfigManager) =
     \<lparr>cacheStrategy = semantic, minSimilarity = Some 0.8, cacheTTL = Some 43200000,
      priority = Some quality, storeResult = Some True, multiProviderEnabled = Some False,
      preferredProvider = None\<rparr> \<and>
   getMCPParams (setStrategy conservative initialConfigManager) =
     \<lparr>cacheStrategy = exact, minSimilarity = Some 0.95, cacheTTL = Some 3600000,
      priority = Some quality, storeResult = Some True, multiProviderEnabled = Some False,
      preferredProvider = None\<rparr> \<and>
   getMCPParams (setStrategy conservative
      (setPreferredProvider (Some OPENAI) (setMultiProviderEnabled True initialConfigManager))) =
     \<lparr>cacheStrategy = exact, minSimilarity = Some 0.95, cacheTTL = Some 3600000,
      priority = Some quality, storeResult = Some True, multiProviderEnabled = Some True,
      preferredProvider = Some OPENAI\<rparr>"
  by (simp add: initialStrategyConfigs_def initialConfigManager_def getMCPParams_def
      setStrategy_def mergeParams_def setPreferredProvider_def setMultiProviderEnabled_def)

section \<open>Model selection under a preferred provider\<close>

lemma bestLoop_cases: "bestLoop xs b h = b \<or> (\<exists>s. (bestLoop xs b h, s) \<in> set xs)"
proof (induction xs arbitrary: b h)
  case Nil
  then show ?case by simp
next
  case (Cons x xs)
  obtain m s where x: "x = (m, s)" by (cases x)
  show ?case
  proof (cases "meetsRequirements s \<and> totalScore s > h")
    case True
    with Cons.IH[of m "totalScore s"] x show ?thesis by auto
  next
    case False
    with Cons.IH[of b h] x show ?thesis by auto
  qed
qed

lemma bestLoop_found:
  "(m, s) \<in> set xs \<Longrightarrow> meetsRequirements s \<Longrightarrow> totalScore s > h \<Longrightarrow>
   \<exists>s'. (bestLoop xs b h, s') \<in> set xs"
proof (induction xs arbitrary: b h)
  case Nil
  then show ?case by simp
next
  case (Cons x xs)
  obtain m' s' where x: "x = (m', s')" by (cases x)
  show ?case
  proof (cases "meetsRequirements s' \<and> totalScore s' > h")
    case True
    with bestLoop_cases[of xs m' "totalScore s'"] x show ?thesis by auto
  next
    case False
    with Cons.prems x have "(m, s) \<in> set xs" by auto
    from Cons.IH[OF this Cons.prems(2) Cons.prems(3), of b] False x show ?thesis by auto
  qed
qed

lemma modelScores_mem:
  "(m, s) \<in> set (modelScores table options) \<Longrightarrow> so_preferredProvider options = Some P \<Longrightarrow>
   \<exists>md. (m, md) \<in> set table \<and> provider md = P \<and> s = scoreModel md options"
proof (induction table)
  case Nil
  then show ?case by simp
next
  case (Cons x table)
  obtain m' md' where x: "x = (m', md')" by (cases x)
  show ?case
  proof (cases "provider md' = P")
    case True
    show ?thesis
    proof (cases "(m, s) = (m', scoreModel md' options)")
      case True
      with \<open>provider md' = P\<close> x show ?thesis by auto
    next
      case False
      with Cons.prems x \<open>provider md' = P\<close> have "(m, s) \<in> set (modelScores table options)" by auto
      from Cons.IH[OF this Cons.prems(2)] show ?thesis by auto
    qed
  next
    case False
    with Cons.prems x have "(m, s) \<in> set (modelScores table options)" by auto
    from Cons.IH[OF this Cons.prems(2)] show ?thesis by auto
  qed
qed

lemma modelScores_in:
  "(m, md) \<in> set table \<Longrightarrow> provider md = P \<Longrightarrow> so_preferredProvider options = Some P \<Longrightarrow>
   (m, scoreModel md options) \<in> set (modelScores table options)"
  by (induction table) auto

lemma meetsRequirements_scoreModel:
  "meetsRequirements (scoreModel md options) = capabilitiesMet md options"
  by (simp add: scoreModel_def Let_def)

text \<open>
  C8.  With \<open>preferredProvider = P\<close>, if some model of provider \<open>P\<close> passes the
  capability gate with a positive total score, the model \<open>selectModel\<close> returns is a
  model of provider \<open>P\<close>.
\<close>

theorem selectModel_preferredProvider:
  assumes "distinct (map fst table)"
    and "so_preferredProvider options = Some P"
    and "(m, md) \<in> set table" and "provider md = P"
    and "capabilitiesMet md options" and "totalScore (scoreModel md options) > 0"
  shows "\<exists>md'. mapGet (selectModel table options) table = Some md' \<and> provider md' = P"
proof -
  have "(m, scoreModel md options) \<in> set (modelScores table options)"
    using assms by (simp add: modelScores_in)
  moreover have "meetsRequirements (scoreModel md options)"
    using assms by (simp add: meetsRequirements_scoreModel)
  moreover have "totalScore (scoreModel md options) > - 1" using assms by simp
  ultimately obtain s' where "(selectModel table options, s') \<in> set (modelScores table options)"
    unfolding selectModel_def using bestLoop_found by blast
  then obtain md' where "(selectModel table options, md') \<in> set table" "provider md' = P"
    using modelScores_mem assms(2) by blast
  then show ?thesis using mapGet_distinct[OF assms(1)] by blast
qed

text \<open>
  The theorem at the table of the source, for a code task of high complexity that
  requires the \<open>code\<close> capability and prefers \<open>CLAUDE\<close>.
\<close>

theorem selectModel_preferredProvider_witness:
  "distinct (map fst modelsMetadata) \<and>
   so_preferredProvider
     \<lparr>so_taskType = Some ''code'', so_promptTokenEstimate = None,
      so_outputTokenEstimate = None, so_priority = Some quality,
      so_requiredCapabilities = Some [''code''], so_preferredProvider = Some CLAUDE,
      so_complexityLevel = Some high\<rparr> = Some CLAUDE \<and>
   (\<exists>md. (''claude-3-opus-20240229'', md) \<in> set modelsMetadata \<and> provider md = CLAUDE \<and>
      capabilitiesMet md
        \<lparr>so_taskType = Some ''code'', so_promptTokenEstimate = None,
         so_outputTokenEstimate = None, so_priority = Some quality,
         so_requiredCapabilities = Some [''code''], so_preferredProvider = Some CLAUDE,
         so_complexityLevel = Some high\<rparr> \<and>
      0 < totalScore (scoreModel md
        \<lparr>so_taskType = Some ''code'', so_promptTokenEstimate = None,
         so_outputTokenEstimate = None, so_priority = Some quality,
         so_requiredCapabilities = Some [''code''], so_preferredProvider = Some CLAUDE,
         so_complexityLevel = Some high\<rparr>)) \<and>
   (\<exists>md'. mapGet (selectModel modelsMetadata
        \<lparr>so_taskType = Some ''code'', so_promptTokenEstimate = None,
         so_outputTokenEstimate = None, so_priority = Some quality,
         so_requiredCapabilities = Some [''code''], so_preferredProvider = Some CLAUDE,
         so_complexityLevel = Some high\<rparr>) modelsMetadata = Some md' \<and>
      provider md' = CLAUDE)"
proof -
  let ?o = "\<lparr>so_taskType = Some ''code'', so_promptTokenEstimate = None,
         so_outputTokenEstimate = None, so_priority = Some quality,
         so_requiredCapabilities = Some [''code''], so_preferredProvider = Some CLAUDE,
         so_complexityLevel = Some high\<rparr>"
  have d: "distinct (map fst modelsMetadata)" by (simp add: modelsMetadata_def)
  have p: "so_preferredProvider ?o = Some CLAUDE" by simp
  obtain md where md: "mapGet ''claude-3-opus-20240229'' modelsMetadata = Some md"
    by (simp add: modelsMetadata_def)
  then have mem: "(''claude-3-opus-20240229'', md) \<in> set modelsMetadata" by (rule mapGet_Some_mem)
  have pr: "provider md = CLAUDE" using md by (auto simp: modelsMetadata_def)
  have cm: "capabilitiesMet md ?o" using md
    by (auto simp: modelsMetadata_def capabilitiesMet_def orDefault_def
        mapCapabilityToMetadataField_def requiredLevelFor_def)
  have sc: "0 < totalScore (scoreModel md ?o)" using md cm
    by (auto simp: modelsMetadata_def scoreModel_def orDefault_def
        calculateQualityScore_def getRelevantCapabilities_def taskWeights_def
        priorityWeightsFor_def complexityMultiplier_def Let_def)
  from selectModel_preferredProvider[OF d p mem pr cm sc] d p mem pr cm sc
  show ?thesis by blast
qed

section \<open>The queue: the scan of getNextRequest\<close>

lemma nextLoop_beats:
  "beats e hp ot \<Longrightarrow>
   nextLoop ((rid, e) # q) hp ot sel = nextLoop q (qe_priority e) (Some (qe_timestamp e)) (Some rid)"
  by (auto simp: beats_def)

lemma nextLoop_not_beats:
  "\<not> beats e hp ot \<Longrightarrow> nextLoop ((rid, e) # q) hp ot sel = nextLoop q hp ot sel"
  by (auto simp: beats_def)

lemma beats_trans:
  "beats e (qe_priority e0) (Some (qe_timestamp e0)) \<Longrightarrow> beats e0 hp ot \<Longrightarrow> beats e hp ot"
  by (auto simp: beats_def split: option.splits)

lemma beats_asym:
  "beats e (qe_priority e0) (Some (qe_timestamp e0)) \<Longrightarrow>
   \<not> beats e0 (qe_priority e) (Some (qe_timestamp e))"
  by (auto simp: beats_def)

lemma beats_irrefl: "\<not> beats e (qe_priority e) (Some (qe_timestamp e))"
  by (auto simp: beats_def)

lemma beats_keep:
  "\<not> beats e0 hp ot \<Longrightarrow> beats e hp ot \<Longrightarrow> \<not> beats e0 (qe_priority e) (Some (qe_timestamp e))"
  by (auto simp: beats_def split: option.splits)

lemma nextLoop_result:
  "(nextLoop q hp ot sel = sel \<and> (\<forall>rid e. (rid, e) \<in> set q \<longrightarrow> \<not> beats e hp ot)) \<or>
   (\<exists>rid e. nextLoop q hp ot sel = Some rid \<and> (rid, e) \<in> set q \<and> beats e hp ot \<and>
      (\<forall>rid' e'. (rid', e') \<in> set q \<longrightarrow> \<not> beats e' (qe_priority e) (Some (qe_timestamp e))))"
proof (induction q arbitrary: hp ot sel)
  case Nil
  then show ?case by simp
next
  case (Cons x q)
  obtain rid0 e0 where x: "x = (rid0, e0)" by (cases x)
  show ?case
  proof (cases "beats e0 hp ot")
    case True
    note step = nextLoop_beats[OF True, of rid0 q sel]
    from Cons.IH[of "qe_priority e0" "Some (qe_timestamp e0)" "Some rid0"] show ?thesis
    proof (elim disjE conjE exE)
      assume "nextLoop q (qe_priority e0) (Some (qe_timestamp e0)) (Some rid0) = Some rid0"
        and "\<forall>rid e. (rid, e) \<in> set q \<longrightarrow> \<not> beats e (qe_priority e0) (Some (qe_timestamp e0))"
      then have "nextLoop (x # q) hp ot sel = Some rid0 \<and> (rid0, e0) \<in> set (x # q) \<and>
          beats e0 hp ot \<and>
          (\<forall>rid' e'. (rid', e') \<in> set (x # q) \<longrightarrow>
             \<not> beats e' (qe_priority e0) (Some (qe_timestamp e0)))"
        using True step x beats_irrefl[of e0] by auto
      then show ?thesis by blast
    next
      fix rid e
      assume "nextLoop q (qe_priority e0) (Some (qe_timestamp e0)) (Some rid0) = Some rid"
        and "(rid, e) \<in> set q" and b: "beats e (qe_priority e0) (Some (qe_timestamp e0))"
        and "\<forall>rid' e'. (rid', e') \<in> set q \<longrightarrow> \<not> beats e' (qe_priority e) (Some (qe_timestamp e))"
      then have "nextLoop (x # q) hp ot sel = Some rid \<and> (rid, e) \<in> set (x # q) \<and>
          beats e hp ot \<and>
          (\<forall>rid' e'. (rid', e') \<in> set (x # q) \<longrightarrow>
             \<not> beats e' (qe_priority e) (Some (qe_timestamp e)))"
        using step x beats_trans[OF b True] beats_asym[OF b] by auto
      then show ?thesis by blast
    qed
  next
    case False
    note step = nextLoop_not_beats[OF False, of rid0 q sel]
    from Cons.IH[of hp ot sel] show ?thesis
    proof (elim disjE conjE exE)
      assume "nextLoop q hp ot sel = sel"
        and "\<forall>rid e. (rid, e) \<in> set q \<longrightarrow> \<not> beats e hp ot"
      then have "nextLoop (x # q) hp ot sel = sel \<and>
          (\<forall>rid e. (rid, e) \<in> set (x # q) \<longrightarrow> \<not> beats e hp ot)"
        using False step x by auto
      then show ?thesis by blast
    next
      fix rid e
      assume "nextLoop q hp ot sel = Some rid"
        and "(rid, e) \<in> set q" and b: "beats e hp ot"
        and "\<forall>rid' e'. (rid', e') \<in> set q \<longrightarrow> \<not> beats e' (qe_priority e) (Some (qe_timestamp e))"
      then have "nextLoop (x # q) hp ot sel = Some rid \<and> (rid, e) \<in> set (x # q) \<and>
          beats e hp ot \<and>
          (\<forall>rid' e'. (rid', e') \<in> set (x # q) \<longrightarrow>
             \<not> beats e' (qe_priority e) (Some (qe_timestamp e)))"
        using step x beats_keep[OF False b] by auto
      then show ?thesis by blast
    qed
  qed
qed

lemma set_mapDelete: "set (mapDelete k m) = {(k', v). (k', v) \<in> set m \<and> k' \<noteq> k}"
  by (induction m) (auto split: if_splits)

text \<open>
  What the scan does when the queue holds an entry of weight at least \<open>-1\<close>: it
  removes and returns an entry of maximal weight, the one of smallest timestamp among
  those of that weight.  The queue is a \<open>Map\<close> keyed by the request ids \<open>enqueue\<close>
  draws: distinct and not empty.
\<close>

lemma getNextRequest_highest_oldest:
  fixes q :: "(string \<times> 'd QueueEntry) list"
  assumes "distinct (map fst q)"
    and "\<forall>(rid, e) \<in> set q. rid \<noteq> []"
    and "(rid0, e0) \<in> set q" and "qe_priority e0 \<ge> - 1"
  shows "\<exists>rid e. getNextRequest q = (Some e, mapDelete rid q) \<and> (rid, e) \<in> set q \<and>
           set (mapDelete rid q) = set q - {(rid, e)} \<and>
           (\<forall>(rid', e') \<in> set q. qe_priority e' \<le> qe_priority e \<and>
              (qe_priority e' = qe_priority e \<longrightarrow> qe_timestamp e \<le> qe_timestamp e')) \<and>
           priorityLevels defaultOptions High = 100 \<and> priorityLevels defaultOptions Normal = 50 \<and>
           priorityLevels defaultOptions Low = 10 \<and>
           priorityLevels defaultOptions High > priorityLevels defaultOptions Normal \<and>
           priorityLevels defaultOptions Normal > priorityLevels defaultOptions Low"
proof -
  have b0: "beats e0 (- 1) None" using assms(4) by (auto simp: beats_def)
  from nextLoop_result[of q "- 1" None None] assms(3) b0
  obtain rid e where sel: "nextLoop q (- 1) None None = Some rid" and mem: "(rid, e) \<in> set q"
    and mx: "\<forall>rid' e'. (rid', e') \<in> set q \<longrightarrow> \<not> beats e' (qe_priority e) (Some (qe_timestamp e))"
    by blast
  have ne: "rid \<noteq> []" using assms(2) mem by auto
  have g: "mapGet rid q = Some e" using assms(1) mem by (rule mapGet_distinct)
  have run: "getNextRequest q = (Some e, mapDelete rid q)"
    by (simp add: getNextRequest_def sel ne g)
  have del: "set (mapDelete rid q) = set q - {(rid, e)}"
    using assms(1) mem by (auto simp: set_mapDelete dest: eq_key_imp_eq_value)
  have top: "\<forall>(rid', e') \<in> set q. qe_priority e' \<le> qe_priority e \<and>
              (qe_priority e' = qe_priority e \<longrightarrow> qe_timestamp e \<le> qe_timestamp e')"
    using mx by (fastforce simp: beats_def)
  have lv: "priorityLevels defaultOptions High = 100 \<and> priorityLevels defaultOptions Normal = 50 \<and>
           priorityLevels defaultOptions Low = 10 \<and>
           priorityLevels defaultOptions High > priorityLevels defaultOptions Normal \<and>
           priorityLevels defaultOptions Normal > priorityLevels defaultOptions Low"
    by (simp add: defaultOptions_def defaultPriorityLevels_def)
  from run mem del top lv show ?thesis by blast
qed

text \<open>
  C6.  The scan starts from \<open>highestPriority = -1\<close> (beside
  \<open>oldestTimestamp = Infinity\<close>), so an entry of weight below \<open>-1\<close> is never
  selected.  With the weights high = -2 > normal = -3 > low = -4, after a low and a high
  request are submitted the queue holds both, \<open>getNextRequest\<close> returns \<open>null\<close> and
  removes nothing, and no request is in flight.
\<close>

theorem getNextRequest_negative_weights:
  "negativeLevels High > negativeLevels Normal \<and> negativeLevels Normal > negativeLevels Low \<and>
   requestQueue
     (enqueue ((exampleEnv (Finite 3) 1000 (\<lambda>i. HttpOk (Inr exampleAnswer)))
                  \<lparr>env_options := defaultOptions\<lparr>priorityLevels := negativeLevels\<rparr>\<rparr>)
        ''req_2'' 1 exampleRequest High
        (enqueue ((exampleEnv (Finite 3) 1000 (\<lambda>i. HttpOk (Inr exampleAnswer)))
                     \<lparr>env_options := defaultOptions\<lparr>priorityLevels := negativeLevels\<rparr>\<rparr>)
           ''req_1'' 0 exampleRequest Low (newService emptyCaches))) =
     [(''req_1'', \<lparr>request = exampleRequest, qe_priority = - 4, qe_timestamp = 0,
                   promiseOf = ''req_1''\<rparr>),
      (''req_2'', \<lparr>request = exampleRequest, qe_priority = - 2, qe_timestamp = 1,
                   promiseOf = ''req_2''\<rparr>)] \<and>
   getNextRequest
     [(''req_1'', \<lparr>request = exampleRequest, qe_priority = - 4, qe_timestamp = 0,
                   promiseOf = ''req_1''\<rparr>),
      (''req_2'', \<lparr>request = exampleRequest, qe_priority = - 2, qe_timestamp = 1,
                   promiseOf = ''req_2''\<rparr>)] =
     (None,
      [(''req_1'', \<lparr>request = exampleRequest, qe_priority = - 4, qe_timestamp = 0,
                    promiseOf = ''req_1''\<rparr>),
       (''req_2'', \<lparr>request = exampleRequest, qe_priority = - 2, qe_timestamp = 1,
                    promiseOf = ''req_2''\<rparr>)]) \<and>
   inFlight
     (enqueue ((exampleEnv (Finite 3) 1000 (\<lambda>i. HttpOk (Inr exampleAnswer)))
                  \<lparr>env_options := defaultOptions\<lparr>priorityLevels := negativeLevels\<rparr>\<rparr>)
        ''req_2'' 1 exampleRequest High
        (enqueue ((exampleEnv (Finite 3) 1000 (\<lambda>i. HttpOk (Inr exampleAnswer)))
                     \<lparr>env_options := defaultOptions\<lparr>priorityLevels := negativeLevels\<rparr>\<rparr>)
           ''req_1'' 0 exampleRequest Low (newService emptyCaches))) = None"
  by (simp add: enqueue_def newService_def processQueue_def processQueue_loop_def
  getNextRequest_def exampleEnv_def exampleRequest_def defaultOptions_def
  truthy_def Let_def emptyCaches_def negativeLevels_def)

section \<open>The exact cache key\<close>

lemma generateExactCacheKey_agree:
  "model r1 = model r2 \<Longrightarrow> temperature r1 = temperature r2 \<Longrightarrow>
   systemPrompt r1 = systemPrompt r2 \<Longrightarrow> prompt r1 = prompt r2 \<Longrightarrow>
   generateExactCacheKey numberToString r1 = generateExactCacheKey numberToString r2"
  by (simp add: generateExactCacheKey_def)

text \<open>
  C9 (equal keys only for equal requests).  The code run at two pairs of different
  requests: the key joins the fields with colons and escapes nothing, so a colon in
  \<open>systemPrompt\<close> moves the boundary to \<open>prompt\<close>, and an absent
  \<open>systemPrompt\<close> renders as the text \<open>undefined\<close>.
\<close>

theorem generateExactCacheKey_collision:
  "generateExactCacheKey numberToString
     \<lparr>prompt = ''Draw a cube'', model = Some ''gpt-4o'', systemPrompt = Some ''Role: CAD expert'',
      temperature = Some 0.5, parseResponse = None, metadata = None, mcpParams = None\<rparr> =
   generateExactCacheKey numberToString
     \<lparr>prompt = '' CAD expert:Draw a cube'', model = Some ''gpt-4o'', systemPrompt = Some ''Role'',
      temperature = Some 0.5, parseResponse = None, metadata = None, mcpParams = None\<rparr> \<and>
   ''Draw a cube'' \<noteq> '' CAD expert:Draw a cube'' \<and>
   generateExactCacheKey numberToString
     \<lparr>prompt = ''Draw a cube'', model = Some ''gpt-4o'', systemPrompt = None,
      temperature = Some 0.5, parseResponse = None, metadata = None, mcpParams = None\<rparr> =
   generateExactCacheKey numberToString
     \<lparr>prompt = ''Draw a cube'', model = Some ''gpt-4o'', systemPrompt = Some ''undefined'',
      temperature = Some 0.5, parseResponse = None, metadata = None, mcpParams = None\<rparr>"
  by (simp add: generateExactCacheKey_def renderString_def)

section \<open>Retries of executeRequest\<close>

lemma fetchCount_append: "fetchCount (xs @ ys) = fetchCount xs + fetchCount ys"
  by (induction xs rule: fetchCount.induct) auto

lemma delays_append: "delays (xs @ ys) = delays xs @ delays ys"
  by (induction xs rule: delays.induct) auto

lemma lookupCaches_effects:
  "lookupCaches env req mcp now st = (r, st1, eff1) \<Longrightarrow> fetchCount eff1 = 0 \<and> delays eff1 = []"
  by (auto simp: lookupCaches_def Let_def fetchCount_append delays_append
      split: if_splits prod.splits sum.splits option.splits)

lemma attempt_effects:
  "attempt env req mcp rc st = (r, st2, eff2) \<Longrightarrow> fetchCount eff2 = 1 \<and> delays eff2 = []"
  by (auto simp: attempt_def callProviderAPI_def Let_def fetchCount_append delays_append
      split: if_splits prod.splits sum.splits option.splits)



lemmas run_defs = executeRequest.simps exampleEnv_def exampleRequest_def emptyCaches_def
      defaultOptions_def paramsOf_def lookupCaches_def attempt_def callProviderAPI_def
      generateExactCacheKey_def renderString_def AICache_get_def Let_def truthy_def thrownBy_def
      getProviderForModel_def modelsMetadata_def isClaude_def exampleAnswer_def orZero_def orDefault_def
      storeInCaches_def AICache_set_def errorResponse_def jsLess_def
      MCPService_getProviderForModel_def





section \<open>Failures of the provider call\<close>

lemma lookupCaches_miss:
  assumes "mapGet (generateExactCacheKey (env_numberToString env) req) (cache (exactCache st)) = None"
    and "semanticCache st = []"
  shows "\<exists>eff1. lookupCaches env req mcp now st = (Inr (None, 1), st, eff1)"
  using assms
  by (auto simp: lookupCaches_def Let_def AICache_get_def findSimilar_def)

lemma cachesAt_miss:
  assumes "mapGet (generateExactCacheKey (env_numberToString env) req) (cache (exactCache st)) = None"
    and "semanticCache st = []"
  shows "cachesAt env req st i = st"
proof (induction i)
  case 0
  show ?case by simp
next
  case (Suc i)
  from lookupCaches_miss[OF assms] obtain eff1 where
    "lookupCaches env req (paramsOf req (defaultTTL (env_options env))) (startTime env i) st =
       (Inr (None, 1), st, eff1)" by blast
  with Suc show ?case by simp
qed

lemma attempt_throws:
  assumes "snd (callProviderAPI req (MCPService_getProviderForModel (env_table env) (model req))
                  (fetchResult env i)) = Inl e"
  shows "\<exists>eff2. attempt env req mcp i st = (Inl e, st, eff2)"
  using assms by (auto simp: attempt_def Let_def split: prod.splits)

lemma executeRequest_all_fail:
  assumes fin: "maxRetries (env_options env) = Finite (real n)"
    and miss: "\<forall>i \<le> n. \<exists>sim.
        fst (lookupCaches env req (paramsOf req (defaultTTL (env_options env))) (startTime env i)
               (cachesAt env req st i)) = Inr (None, sim)"
    and fail: "\<forall>i \<le> n. \<exists>e.
        snd (callProviderAPI req (MCPService_getProviderForModel (env_table env) (model req))
               (fetchResult env i)) = Inl e"
    and le: "r \<le> n"
  shows "\<exists>e eff.
           snd (callProviderAPI req (MCPService_getProviderForModel (env_table env) (model req))
                  (fetchResult env n)) = Inl e \<and>
           executeRequest env req r (cachesAt env req st r) =
             Some (Inr (errorResponse e), cachesAt env req st (Suc n), eff) \<and>
           fetchCount eff = 1 + (n - r)"
  using le
proof (induction "n - r" arbitrary: r)
  case 0
  then have r: "r = n" by simp
  then have nr: "\<not> jsLess r (maxRetries (env_options env))" by (simp add: fin jsLess_def)
  from fail obtain e where fr:
    "snd (callProviderAPI req (MCPService_getProviderForModel (env_table env) (model req))
            (fetchResult env r)) = Inl e"
    using r by blast
  from miss r obtain sim where
    "fst (lookupCaches env req (paramsOf req (defaultTTL (env_options env))) (startTime env r)
               (cachesAt env req st r)) = Inr (None, sim)" by blast
  then obtain eff1 where
    L: "lookupCaches env req (paramsOf req (defaultTTL (env_options env))) (startTime env r)
          (cachesAt env req st r) = (Inr (None, sim), cachesAt env req st (Suc r), eff1)"
    by (cases "lookupCaches env req (paramsOf req (defaultTTL (env_options env))) (startTime env r)
          (cachesAt env req st r)") auto
  obtain eff2 where A: "attempt env req (paramsOf req (defaultTTL (env_options env))) r
      (cachesAt env req st (Suc r)) = (Inl e, cachesAt env req st (Suc r), eff2)"
    using attempt_throws[OF fr] by blast
  have "executeRequest env req r (cachesAt env req st r) =
      Some (Inr (errorResponse e), cachesAt env req st (Suc r), eff1 @ eff2 @ [Track ''request_failed''])"
    using nr by (subst executeRequest.simps) (simp add: Let_def L A del: cachesAt.simps)
  moreover have "fetchCount (eff1 @ eff2 @ [Track ''request_failed'']) = 1"
    using lookupCaches_effects[OF L] attempt_effects[OF A] by (simp add: fetchCount_append)
  ultimately show ?case using fr r by auto
next
  case (Suc k)
  then have lt: "r < n" and k: "k = n - Suc r" and le': "Suc r \<le> n" by simp_all
  from lt have js: "jsLess r (maxRetries (env_options env))" by (simp add: fin jsLess_def)
  from fail obtain e0 where fr:
    "snd (callProviderAPI req (MCPService_getProviderForModel (env_table env) (model req))
            (fetchResult env r)) = Inl e0"
    using lt by (meson less_imp_le)
  from miss lt obtain sim where
    "fst (lookupCaches env req (paramsOf req (defaultTTL (env_options env))) (startTime env r)
               (cachesAt env req st r)) = Inr (None, sim)" by (meson less_imp_le)
  then obtain eff1 where
    L: "lookupCaches env req (paramsOf req (defaultTTL (env_options env))) (startTime env r)
          (cachesAt env req st r) = (Inr (None, sim), cachesAt env req st (Suc r), eff1)"
    by (cases "lookupCaches env req (paramsOf req (defaultTTL (env_options env))) (startTime env r)
          (cachesAt env req st r)") auto
  obtain eff2 where A: "attempt env req (paramsOf req (defaultTTL (env_options env))) r
      (cachesAt env req st (Suc r)) = (Inl e0, cachesAt env req st (Suc r), eff2)"
    using attempt_throws[OF fr] by blast
  from Suc.hyps(1)[OF k le'] obtain e eff3 where
    last: "snd (callProviderAPI req (MCPService_getProviderForModel (env_table env) (model req))
                  (fetchResult env n)) = Inl e" and
    R: "executeRequest env req (Suc r) (cachesAt env req st (Suc r)) =
          Some (Inr (errorResponse e), cachesAt env req st (Suc n), eff3)" and
    F: "fetchCount eff3 = 1 + (n - Suc r)"
    by blast
  have "executeRequest env req r (cachesAt env req st r) =
      Some (Inr (errorResponse e), cachesAt env req st (Suc n),
       eff1 @ eff2 @ [Delay (retryDelay (env_options env) * 2 ^ r)] @ eff3)"
    by (subst executeRequest.simps) (simp add: Let_def L A js R del: cachesAt.simps)
  moreover have "fetchCount (eff1 @ eff2 @ [Delay (retryDelay (env_options env) * 2 ^ r)] @ eff3) =
      1 + (n - r)"
    using lookupCaches_effects[OF L] attempt_effects[OF A] F lt by (simp add: fetchCount_append)
  ultimately show ?case using last by blast
qed

text \<open>
  C5, as the code has it.  \<open>callProviderAPI\<close> throws for every response that is not ok,
  whatever the status, as it does when \<open>fetch\<close> rejects or the body cannot be read, and
  the \<open>catch\<close> of \<open>executeRequest\<close> retries every error alike.  Let \<open>maxRetries\<close> be a
  non-negative integer \<open>n\<close>.  When, at each of the attempts \<open>0, \<dots>, n\<close>, the cache
  lookups find nothing and the provider call throws, \<open>fetch\<close> is called \<open>1 + n\<close> times,
  and the error of the last attempt is then returned in a response with
  \<open>success = false\<close>.
\<close>

theorem executeRequest_retries_every_failure:
  assumes "maxRetries (env_options env) = Finite (real n)"
    and "\<forall>i \<le> n. \<exists>sim.
        fst (lookupCaches env req (paramsOf req (defaultTTL (env_options env))) (startTime env i)
               (cachesAt env req st i)) = Inr (None, sim)"
    and "\<forall>i \<le> n. \<exists>e.
        snd (callProviderAPI req (MCPService_getProviderForModel (env_table env) (model req))
               (fetchResult env i)) = Inl e"
  shows "(\<exists>e eff.
            snd (callProviderAPI req (MCPService_getProviderForModel (env_table env) (model req))
                   (fetchResult env n)) = Inl e \<and>
            executeRequest env req 0 st =
              Some (Inr (errorResponse e), cachesAt env req st (Suc n), eff) \<and>
            fetchCount eff = 1 + n \<and>
            \<not> success (response (errorResponse e :: 'd MCPResponse))) \<and>
         (\<forall>p status body. snd (callProviderAPI req p (HttpFailure status body)) = Inl (thrownBy body)) \<and>
         (\<forall>p e. snd (callProviderAPI req p (FetchRejects e)) = Inl e) \<and>
         (\<forall>p e. snd (callProviderAPI req p (HttpOk (Inl e))) = Inl e)"
proof -
  from executeRequest_all_fail[OF assms, of 0]
  obtain e eff where
    "snd (callProviderAPI req (MCPService_getProviderForModel (env_table env) (model req))
                   (fetchResult env n)) = Inl e"
    "executeRequest env req 0 st = Some (Inr (errorResponse e), cachesAt env req st (Suc n), eff)"
    "fetchCount eff = 1 + n" by auto
  moreover have "\<not> success (response (errorResponse e :: 'd MCPResponse))"
    by (simp add: errorResponse_def)
  ultimately have "\<exists>e eff.
            snd (callProviderAPI req (MCPService_getProviderForModel (env_table env) (model req))
                   (fetchResult env n)) = Inl e \<and>
            executeRequest env req 0 st =
              Some (Inr (errorResponse e), cachesAt env req st (Suc n), eff) \<and>
            fetchCount eff = 1 + n \<and>
            \<not> success (response (errorResponse e :: 'd MCPResponse))" by blast
  then show ?thesis by (simp add: callProviderAPI_def)
qed

text \<open>
  The theorem at the run where \<open>fetch\<close> rejects, then answers 401, 429 and 500, with the
  default options: four calls, and the error of the last one.
\<close>

theorem executeRequest_retries_every_failure_witness:
  "maxRetries (env_options
      (exampleEnv (Finite 3) 1000
         (\<lambda>i. if i = 0 then FetchRejects (Error ''Failed to fetch'')
               else if i = 1 then HttpFailure 401 (Inr (Some ''Unauthorized''))
               else if i = 2 then HttpFailure 429 (Inr (Some ''Too Many Requests''))
               else HttpFailure 500 (Inr None)))) = Finite (real 3) \<and>
   (\<exists>eff. executeRequest
      (exampleEnv (Finite 3) 1000
         (\<lambda>i. if i = 0 then FetchRejects (Error ''Failed to fetch'')
               else if i = 1 then HttpFailure 401 (Inr (Some ''Unauthorized''))
               else if i = 2 then HttpFailure 429 (Inr (Some ''Too Many Requests''))
               else HttpFailure 500 (Inr None)))
      exampleRequest 0 emptyCaches =
        Some (Inr (errorResponse (Error ''API request failed'')), emptyCaches, eff) \<and>
      fetchCount eff = 1 + 3)"
proof -
  let ?env = "exampleEnv (Finite 3) 1000
         (\<lambda>i. if i = 0 then FetchRejects (Error ''Failed to fetch'')
               else if i = 1 then HttpFailure 401 (Inr (Some ''Unauthorized''))
               else if i = 2 then HttpFailure 429 (Inr (Some ''Too Many Requests''))
               else HttpFailure 500 (Inr None))"
  let ?p = "MCPService_getProviderForModel (env_table ?env) (model exampleRequest)"
  have 1: "maxRetries (env_options ?env) = Finite (real 3)" by (simp add: exampleEnv_def)
  have k: "mapGet (generateExactCacheKey (env_numberToString ?env) exampleRequest)
      (cache (exactCache emptyCaches)) = None" by (simp add: emptyCaches_def)
  have s: "semanticCache emptyCaches = []" by (simp add: emptyCaches_def)
  note c = cachesAt_miss[OF k s]
  have 2: "\<forall>i \<le> 3. \<exists>sim.
        fst (lookupCaches ?env exampleRequest
               (paramsOf exampleRequest (defaultTTL (env_options ?env))) (startTime ?env i)
               (cachesAt ?env exampleRequest emptyCaches i)) = Inr (None, sim)"
  proof (intro allI impI)
    fix i
    from lookupCaches_miss[OF k s] obtain eff1 where
      "lookupCaches ?env exampleRequest
         (paramsOf exampleRequest (defaultTTL (env_options ?env))) (startTime ?env i) emptyCaches =
       (Inr (None, 1), emptyCaches, eff1)" by blast
    then show "\<exists>sim.
        fst (lookupCaches ?env exampleRequest
               (paramsOf exampleRequest (defaultTTL (env_options ?env))) (startTime ?env i)
               (cachesAt ?env exampleRequest emptyCaches i)) = Inr (None, sim)"
      unfolding c by simp
  qed
  have 3: "\<forall>i \<le> 3. \<exists>e. snd (callProviderAPI exampleRequest ?p (fetchResult ?env i)) = Inl e"
    by (simp add: exampleEnv_def callProviderAPI_def)
  have 4: "snd (callProviderAPI exampleRequest ?p (fetchResult ?env 3)) =
             Inl (Error ''API request failed'')"
    by (simp add: exampleEnv_def callProviderAPI_def thrownBy_def truthy_def)
  from executeRequest_retries_every_failure[OF 1 2 3]
  obtain e eff where
    a: "snd (callProviderAPI exampleRequest ?p (fetchResult ?env 3)) = Inl e"
    and b: "executeRequest ?env exampleRequest 0 emptyCaches =
          Some (Inr (errorResponse e), cachesAt ?env exampleRequest emptyCaches (Suc 3), eff)"
    and f: "fetchCount eff = 1 + 3" by blast
  from a 4 have "e = Error ''API request failed''" by simp
  with b have "executeRequest ?env exampleRequest 0 emptyCaches =
          Some (Inr (errorResponse (Error ''API request failed'')), emptyCaches, eff)"
    unfolding c by simp
  with 1 f show ?thesis by blast
qed

text \<open>
  A request whose provider call fails with 401 at every attempt: \<open>fetch\<close> is called
  four times, after waits of 1000, 2000 and 4000.
\<close>

theorem executeRequest_4xx_counterexample:
  "fetchResult (exampleEnv (Finite 3) 1000 (\<lambda>i. HttpFailure 401 (Inr (Some ''Unauthorized'')))) 0 =
     HttpFailure 401 (Inr (Some ''Unauthorized'')) \<and>
   map_option (\<lambda>(res, st', eff). (fetchCount eff, delays eff))
     (executeRequest
        (exampleEnv (Finite 3) 1000 (\<lambda>i. HttpFailure 401 (Inr (Some ''Unauthorized''))))
        exampleRequest 0 emptyCaches) = Some (4, [1000, 2000, 4000])"
  by (simp add: run_defs)

section \<open>Settlement of the promises of enqueue\<close>




















end
